theory Spec2Isabelle
  imports Complex_Main
begin

chapter \<open>HiveMind Copilot: the extension's services, providers and panels\<close>

text \<open>
  A shallow embedding of the TypeScript sources of the extension. JavaScript strings are
  modelled as \<^typ>\<open>string\<close>, one \<^typ>\<open>char\<close> per UTF-16 code unit below 256. Exceptions and
  rejected promises are values: a function that can throw returns a sum whose left summand is
  the thrown value. What the host editor, the Hedera SDK and the remote API do is a parameter
  of the functions that call them, and every call made to them is recorded in a trace.
\<close>

section \<open>Transaction Center provider (\<^verbatim>\<open>views/TransactionCenter.ts\<close>)\<close>

text \<open>
  The provider holds the array \<^verbatim>\<open>transactions\<close> (elements of type \<^verbatim>\<open>any\<close>) and an event
  emitter; \<open>fired\<close> counts the calls of \<^verbatim>\<open>_onDidChangeTreeData.fire()\<close>.
\<close>

record 'tx transaction_center =
  transactions :: "'tx list"
  fired :: nat

text \<open>
  \<^verbatim>\<open>refresh(newTransactions = [])\<close>: a non-empty argument is put in front of the list, then
  the change event fires.
\<close>

definition TransactionCenterProvider_refresh ::
  "'tx list \<Rightarrow> 'tx transaction_center \<Rightarrow> 'tx transaction_center" where
  "TransactionCenterProvider_refresh newTransactions p =
     (let p1 = (if length newTransactions > 0
                then p\<lparr>transactions := newTransactions @ transactions p\<rparr>
                else p)
      in p1\<lparr>fired := Suc (fired p1)\<rparr>)"

text \<open>
  \<^verbatim>\<open>addTransaction(transaction)\<close>: \<^verbatim>\<open>this.transactions.unshift(transaction)\<close>, then
  \<^verbatim>\<open>this.refresh()\<close> with the default argument.
\<close>

definition addTransaction :: "'tx \<Rightarrow> 'tx transaction_center \<Rightarrow> 'tx transaction_center" where
  "addTransaction transaction p =
     TransactionCenterProvider_refresh [] (p\<lparr>transactions := transaction # transactions p\<rparr>)"

section \<open>Values, thrown values and the trace of outside calls\<close>

text \<open>
  A JavaScript value as far as the services pass one around untyped (\<^verbatim>\<open>any\<close>): message
  payloads, registry metadata, HTTP response bodies.
\<close>

datatype jsval =
    JUndefined
  | JNull
  | JBool bool
  | JNum rat
  | JStr string
  | JArr "jsval list"
  | JObj "(string \<times> jsval) list"

text \<open>The falsy values of JavaScript: \<^verbatim>\<open>undefined\<close>, \<^verbatim>\<open>null\<close>, \<^verbatim>\<open>false\<close>, \<^verbatim>\<open>0\<close> and \<^verbatim>\<open>''\<close>.\<close>

fun truthy :: "jsval \<Rightarrow> bool" where
  "truthy JUndefined = False"
| "truthy JNull = False"
| "truthy (JBool b) = b"
| "truthy (JNum n) = (n \<noteq> 0)"
| "truthy (JStr s) = (s \<noteq> [])"
| "truthy (JArr xs) = True"
| "truthy (JObj kvs) = True"

text \<open>An exception raised inside the Hedera SDK: the name and the message of the error.\<close>

datatype sdk_failure = SdkFailure string string

text \<open>
  What a \<^verbatim>\<open>throw\<close> or a rejected promise carries: \<open>Error m\<close> is \<^verbatim>\<open>new Error(m)\<close> built by
  the extension itself, \<open>Sdk f\<close> an exception that came out of the SDK, \<open>ApiRejection r\<close> the
  value the HTTP client rejected with, kept as its string conversion, \<open>HostError m\<close> an error
  raised by the editor's API or by the runtime's library, \<open>TypeError m\<close> the error the
  JavaScript runtime raises when a property of \<^verbatim>\<open>undefined\<close> or \<^verbatim>\<open>null\<close> is read or
  when something that is no function is called.
\<close>

datatype thrown =
    Error string
  | Sdk sdk_failure
  | ApiRejection string
  | HostError string
  | TypeError string

text \<open>The string conversion \<^verbatim>\<open>`${error}`\<close> (\<^verbatim>\<open>Error.prototype.toString\<close> for error objects).\<close>

definition error_toString :: "string \<Rightarrow> string \<Rightarrow> string" where
  "error_toString name msg =
     (if name = [] then msg else if msg = [] then name else name @ '': '' @ msg)"

fun thrown_toString :: "thrown \<Rightarrow> string" where
  "thrown_toString (Error m) = error_toString ''Error'' m"
| "thrown_toString (Sdk (SdkFailure n m)) = error_toString n m"
| "thrown_toString (ApiRejection r) = r"
| "thrown_toString (HostError m) = error_toString ''Error'' m"
| "thrown_toString (TypeError m) = error_toString ''TypeError'' m"

text \<open>
  The SDK's client handle: the ledger it was made for (\<^verbatim>\<open>Client.forTestnet()\<close>,
  \<^verbatim>\<open>Client.forMainnet()\<close>) and the operator set on it, if any.
\<close>

datatype ledger = Testnet | Mainnet

datatype client = Client ledger "(string \<times> string) option"

text \<open>
  The transactions and queries the service builds and executes on a client. A request stands
  for the whole exchange: building it (\<^verbatim>\<open>TopicId.fromString\<close> and the setters), \<^verbatim>\<open>execute\<close> and,
  for a transaction, \<^verbatim>\<open>getReceipt\<close>.
\<close>

datatype sdk_request =
    TopicCreateTransaction string
  | TopicMessageSubmitTransaction string jsval
  | ContractCallQuery string int string bool
  | FileCreateTransaction string
  | ContractCreateTransaction string int int "jsval option"

text \<open>
  The SDK as the service sees it. \<open>setOperator\<close> says whether \<^verbatim>\<open>client.setOperator(id, key)\<close>
  throws; \<open>executeTx\<close> gives the identifier read from the receipt or the response (topic,
  transaction, file or contract id); \<open>executeQuery\<close> gives the response object of a
  contract call.
\<close>

record sdk =
  setOperator :: "string \<Rightarrow> string \<Rightarrow> sdk_failure option"
  executeTx :: "client \<Rightarrow> sdk_request \<Rightarrow> sdk_failure + string"
  executeQuery :: "client \<Rightarrow> sdk_request \<Rightarrow> sdk_failure + jsval"

text \<open>
  What the service does outside its own state, in the order it does it: logging an error,
  closing a client, executing a request on a client.
\<close>

datatype effect =
    ConsoleError string thrown
  | ClientClose client
  | SdkExecute client sdk_request

text \<open>
  The pattern \<^verbatim>\<open>try { ... } catch (error) { console.error(label, error); throw error; }\<close>
  around a body whose outcome and trace are \<open>r\<close>.
\<close>

definition catch_log :: "string \<Rightarrow> (thrown + 'a) \<times> effect list \<Rightarrow> (thrown + 'a) \<times> effect list" where
  "catch_log label r =
     (case fst r of
        Inl e \<Rightarrow> (Inl e, snd r @ [ConsoleError label e])
      | Inr v \<Rightarrow> r)"

text \<open>Executing one request on a client: the call is traced, an SDK exception is thrown on.\<close>

definition execute_tx :: "sdk \<Rightarrow> client \<Rightarrow> sdk_request \<Rightarrow> (thrown + string) \<times> effect list" where
  "execute_tx k c req =
     (case executeTx k c req of
        Inl f \<Rightarrow> (Inl (Sdk f), [SdkExecute c req])
      | Inr v \<Rightarrow> (Inr v, [SdkExecute c req]))"

definition execute_query :: "sdk \<Rightarrow> client \<Rightarrow> sdk_request \<Rightarrow> (thrown + jsval) \<times> effect list" where
  "execute_query k c req =
     (case executeQuery k c req of
        Inl f \<Rightarrow> (Inl (Sdk f), [SdkExecute c req])
      | Inr v \<Rightarrow> (Inr v, [SdkExecute c req]))"

section \<open>Blockchain session wrapper (\<^verbatim>\<open>services/hederaService.ts\<close>)\<close>

text \<open>The fields of \<^verbatim>\<open>HederaService\<close>; \<^verbatim>\<open>null\<close> is \<open>None\<close>.\<close>

record hedera_service =
  client :: "client option"
  accountId :: "string option"
  privateKey :: "string option"
  network :: string
  connected :: bool

text \<open>The field initialisers of the class.\<close>

definition initial_service :: hedera_service where
  "initial_service =
     \<lparr>client = None, accountId = None, privateKey = None, network = ''testnet'',
      connected = False\<rparr>"

definition not_connected :: thrown where
  "not_connected = Error ''Not connected to Hedera''"

text \<open>
  \<^verbatim>\<open>connect(network, accountId, privateKey)\<close>. The client is assigned before
  \<^verbatim>\<open>setOperator\<close> runs; the credentials and the flag are stored after it. The \<^verbatim>\<open>catch\<close>
  logs, clears the flag and rethrows; it does not touch the client.
\<close>

definition connect ::
  "sdk \<Rightarrow> string \<Rightarrow> string \<Rightarrow> string \<Rightarrow> hedera_service
     \<Rightarrow> (thrown + bool) \<times> hedera_service \<times> effect list" where
  "connect k net acc key s =
     (let created =
        (if net = ''testnet'' then Inr (Client Testnet None)
         else if net = ''mainnet'' then Inr (Client Mainnet None)
         else Inl (Error (''Invalid network: '' @ net)))
      in case created of
        Inl e \<Rightarrow>
          (Inl e, s\<lparr>connected := False\<rparr>, [ConsoleError ''Failed to connect to Hedera:'' e])
      | Inr (Client l opr) \<Rightarrow>
          (case setOperator k acc key of
             Some f \<Rightarrow>
               (Inl (Sdk f), s\<lparr>client := Some (Client l opr), connected := False\<rparr>,
                [ConsoleError ''Failed to connect to Hedera:'' (Sdk f)])
           | None \<Rightarrow>
               (Inr True,
                s\<lparr>client := Some (Client l (Some (acc, key))), accountId := Some acc,
                  privateKey := Some key, network := net, connected := True\<rparr>,
                [])))"

text \<open>\<^verbatim>\<open>disconnect()\<close>: a client that is there is closed and dropped; the flag is cleared.\<close>

definition disconnect :: "hedera_service \<Rightarrow> hedera_service \<times> effect list" where
  "disconnect s =
     (case client s of
        Some c \<Rightarrow> (s\<lparr>client := None, connected := False\<rparr>, [ClientClose c])
      | None \<Rightarrow> (s\<lparr>connected := False\<rparr>, []))"

definition isConnected :: "hedera_service \<Rightarrow> bool" where
  "isConnected s = (connected s \<and> client s \<noteq> None)"

definition getCurrentNetwork :: "hedera_service \<Rightarrow> string" where
  "getCurrentNetwork s = network s"

definition getAccountId :: "hedera_service \<Rightarrow> string option" where
  "getAccountId s = accountId s"

text \<open>
  The operations. Each one tests \<^verbatim>\<open>!this.client\<close> before its \<^verbatim>\<open>try\<close> block, so the
  "not connected" error is thrown without being logged.
\<close>

definition createTopic :: "sdk \<Rightarrow> string \<Rightarrow> hedera_service \<Rightarrow> (thrown + string) \<times> effect list" where
  "createTopic k memo s =
     (case client s of
        None \<Rightarrow> (Inl not_connected, [])
      | Some c \<Rightarrow>
          catch_log ''Failed to create topic:'' (execute_tx k c (TopicCreateTransaction memo)))"

definition submitMessage ::
  "sdk \<Rightarrow> string \<Rightarrow> jsval \<Rightarrow> hedera_service \<Rightarrow> (thrown + string) \<times> effect list" where
  "submitMessage k topicId message s =
     (case client s of
        None \<Rightarrow> (Inl not_connected, [])
      | Some c \<Rightarrow>
          catch_log ''Failed to submit message:''
            (execute_tx k c (TopicMessageSubmitTransaction topicId message)))"

text \<open>
  \<^verbatim>\<open>callContractMethod(contractId, method, params = null, gas = 100000)\<close>; \<open>params\<close> says
  whether parameters were given (the source then sets an empty byte array).
\<close>

definition callContractMethod ::
  "sdk \<Rightarrow> string \<Rightarrow> string \<Rightarrow> bool \<Rightarrow> int \<Rightarrow> hedera_service \<Rightarrow> (thrown + jsval) \<times> effect list" where
  "callContractMethod k contractId method params gas s =
     (case client s of
        None \<Rightarrow> (Inl not_connected, [])
      | Some c \<Rightarrow>
          catch_log ''Failed to call contract method:''
            (execute_query k c (ContractCallQuery contractId gas method params)))"

text \<open>
  \<^verbatim>\<open>getAccountBalance()\<close> also wants a non-empty account id. Its \<^verbatim>\<open>try\<close> block starts with
  \<^verbatim>\<open>new (this.client as any).AccountBalanceQuery()\<close>: the query class is looked up on the
  client object, which has no such member, so the runtime throws a \<^verbatim>\<open>TypeError\<close> before any
  request exists; the \<^verbatim>\<open>catch\<close> logs it and throws it on. The SDK is not called.
\<close>

definition getAccountBalance :: "sdk \<Rightarrow> hedera_service \<Rightarrow> (thrown + string) \<times> effect list" where
  "getAccountBalance k s =
     (case client s of
        None \<Rightarrow> (Inl not_connected, [])
      | Some c \<Rightarrow>
          (case accountId s of
             None \<Rightarrow> (Inl not_connected, [])
           | Some a \<Rightarrow>
               if a = [] then (Inl not_connected, [])
               else catch_log ''Failed to get account balance:''
                      (Inl (TypeError ''this.client.AccountBalanceQuery is not a constructor''),
                       [])))"

text \<open>
  \<^verbatim>\<open>deployContract(bytecode, constructorParams?)\<close>: a file with the bytecode is created,
  then the contract from the file, with gas 500000 and no initial balance; constructor
  parameters are set when the argument is truthy.
\<close>

definition deployContract ::
  "sdk \<Rightarrow> string \<Rightarrow> jsval \<Rightarrow> hedera_service \<Rightarrow> (thrown + string) \<times> effect list" where
  "deployContract k bytecode constructorParams s =
     (case client s of
        None \<Rightarrow> (Inl not_connected, [])
      | Some c \<Rightarrow>
          catch_log ''Failed to deploy contract:''
            (case execute_tx k c (FileCreateTransaction bytecode) of
               (Inl e, t1) \<Rightarrow> (Inl e, t1)
             | (Inr fileId, t1) \<Rightarrow>
                 (case execute_tx k c
                         (ContractCreateTransaction fileId 500000 0
                            (if truthy constructorParams then Some constructorParams else None)) of
                    (r, t2) \<Rightarrow> (r, t1 @ t2))))"

text \<open>
  \<^verbatim>\<open>registerContract(contractId, metadata)\<close> submits the registration data to the topic
  \<^verbatim>\<open>0.0.registry\<close> through \<open>submitMessage\<close>; \<open>now\<close> is \<^verbatim>\<open>Date.now()\<close>.
\<close>

definition registrationData :: "string \<Rightarrow> jsval \<Rightarrow> int \<Rightarrow> string option \<Rightarrow> jsval" where
  "registrationData contractId metadata now owner =
     JObj [(''contractId'', JStr contractId), (''metadata'', metadata),
           (''timestamp'', JNum (of_int now)),
           (''owner'', case owner of None \<Rightarrow> JNull | Some a \<Rightarrow> JStr a)]"

definition registerContract ::
  "sdk \<Rightarrow> int \<Rightarrow> string \<Rightarrow> jsval \<Rightarrow> hedera_service \<Rightarrow> (thrown + string) \<times> effect list" where
  "registerContract k now contractId metadata s =
     (case client s of
        None \<Rightarrow> (Inl not_connected, [])
      | Some c \<Rightarrow>
          catch_log ''Failed to register contract:''
            (submitMessage k ''0.0.registry''
               (registrationData contractId metadata now (accountId s)) s))"

text \<open>
  The operations that answer with placeholder data once the client test has passed. The
  contract information has no \<^verbatim>\<open>abi\<close> field; the record has one, absent here, because the
  deployment utilities read it.
\<close>

record abi_input =
  input_name :: string
  input_type :: string

record abi_item =
  item_type :: string
  item_name :: "string option"
  inputs :: "abi_input list option"
  stateMutability :: "string option"

record contract_info =
  ci_contractId :: string
  ci_name :: string
  ci_description :: string
  ci_owner :: "string option"
  ci_deployedAt :: int
  ci_verified :: bool
  ci_abi :: "abi_item list option"

definition getContractInfo ::
  "int \<Rightarrow> string \<Rightarrow> hedera_service \<Rightarrow> (thrown + contract_info option) \<times> effect list" where
  "getContractInfo now contractId s =
     (case client s of
        None \<Rightarrow> (Inl not_connected, [])
      | Some c \<Rightarrow>
          (Inr (Some \<lparr>ci_contractId = contractId, ci_name = ''Contract '' @ contractId,
                  ci_description = ''Smart contract deployed at '' @ contractId,
                  ci_owner = accountId s, ci_deployedAt = now - 86400000,
                  ci_verified = False, ci_abi = None\<rparr>), []))"

record deployed_contract =
  dc_contractId :: string
  dc_name :: string
  dc_description :: string
  dc_deployedAt :: int

definition getDeployedContracts ::
  "int \<Rightarrow> hedera_service \<Rightarrow> (thrown + deployed_contract list) \<times> effect list" where
  "getDeployedContracts now s =
     (case client s of
        None \<Rightarrow> (Inl not_connected, [])
      | Some c \<Rightarrow>
          (Inr [\<lparr>dc_contractId = ''0.0.contract1'', dc_name = ''Token Contract'',
                  dc_description = ''ERC20 token implementation'',
                  dc_deployedAt = now - 172800000\<rparr>,
                \<lparr>dc_contractId = ''0.0.contract2'', dc_name = ''NFT Contract'',
                  dc_description = ''ERC721 NFT implementation'',
                  dc_deployedAt = now - 86400000\<rparr>], []))"

record agent_reply =
  ar_success :: bool
  ar_response :: string
  ar_agentId :: string
  ar_timestamp :: int

definition useAgent ::
  "int \<Rightarrow> string \<Rightarrow> string \<Rightarrow> hedera_service \<Rightarrow> (thrown + agent_reply) \<times> effect list" where
  "useAgent now agentId prompt s =
     (case client s of
        None \<Rightarrow> (Inl not_connected, [])
      | Some c \<Rightarrow>
          (Inr \<lparr>ar_success = True,
                ar_response = ''Agent '' @ agentId @ '' processed: '' @ prompt,
                ar_agentId = agentId, ar_timestamp = now\<rparr>, []))"

record agent =
  agent_id :: string
  agent_name :: string
  capabilities :: "string list"
  fee :: string

definition getAgents :: "hedera_service \<Rightarrow> (thrown + agent list) \<times> effect list" where
  "getAgents s =
     (case client s of
        None \<Rightarrow> (Inl not_connected, [])
      | Some c \<Rightarrow>
          (Inr [\<lparr>agent_id = ''0.0.12345'', agent_name = ''Security Auditor'',
                  capabilities = [''audit'', ''vulnerability-detection''], fee = ''1.0 HBAR''\<rparr>,
                \<lparr>agent_id = ''0.0.12346'', agent_name = ''Test Generator'',
                  capabilities = [''test-generation'', ''fuzzing''], fee = ''0.5 HBAR''\<rparr>,
                \<lparr>agent_id = ''0.0.12347'', agent_name = ''Gas Optimizer'',
                  capabilities = [''optimization'', ''gas-analysis''], fee = ''0.8 HBAR''\<rparr>], []))"

text \<open>
  \<^verbatim>\<open>updateConfig(accountId, privateKey, network)\<close> stores the three values and, when the flag
  is set, disconnects and connects again; the outcome of that \<open>connect\<close> is not awaited.
\<close>

definition updateConfig ::
  "sdk \<Rightarrow> string \<Rightarrow> string \<Rightarrow> string \<Rightarrow> hedera_service \<Rightarrow> hedera_service \<times> effect list" where
  "updateConfig k acc key net s =
     (let s1 = s\<lparr>accountId := Some acc, privateKey := Some key, network := net\<rparr>
      in if connected s1
         then (case disconnect s1 of
                 (s2, t1) \<Rightarrow> (case connect k net acc key s2 of (r, s3, t2) \<Rightarrow> (s3, t1 @ t2)))
         else (s1, []))"

section \<open>Stand-ins for the SDK\<close>

text \<open>
  Two SDKs to run the service on. The first accepts every operator and executes every
  request it can build: like \<^verbatim>\<open>TopicId.fromString\<close> it refuses a topic id that is not of the
  form \<^verbatim>\<open>shard.realm.num\<close> with three numbers. The second rejects the operator's key and
  refuses to execute on a client without operator.
\<close>

fun split_dots :: "string \<Rightarrow> string list" where
  "split_dots [] = [[]]"
| "split_dots (c # cs) =
     (if c = CHR ''.'' then [] # split_dots cs
      else (case split_dots cs of
              [] \<Rightarrow> [[c]]
            | g # gs \<Rightarrow> (c # g) # gs))"

definition entity_id :: "string \<Rightarrow> bool" where
  "entity_id s =
     (length (split_dots s) = 3
      \<and> list_all (\<lambda>g. g \<noteq> [] \<and> list_all (\<lambda>c. c \<in> set ''0123456789'') g) (split_dots s))"

definition sdk_accepting :: sdk where
  "sdk_accepting =
     \<lparr>setOperator = (\<lambda>acc key. None),
      executeTx = (\<lambda>c req. case req of
                      TopicMessageSubmitTransaction topicId message \<Rightarrow>
                        if entity_id topicId then Inr ''0.0.2@1700000000.000000000''
                        else Inl (SdkFailure ''Error'' (''failed to parse entity id: '' @ topicId))
                    | _ \<Rightarrow> Inr ''0.0.1001''),
      executeQuery = (\<lambda>c req. Inr JNull)\<rparr>"

definition sdk_rejecting :: sdk where
  "sdk_rejecting =
     \<lparr>setOperator = (\<lambda>acc key. Some (SdkFailure ''BadKeyError'' ''invalid private key'')),
      executeTx = (\<lambda>c req. case c of
                      Client l None \<Rightarrow> Inl (SdkFailure ''Error'' ''client must have an operator'')
                    | Client l (Some opr) \<Rightarrow> Inr ''0.0.1001''),
      executeQuery = (\<lambda>c req. Inr JNull)\<rparr>"

section \<open>Strings\<close>

text \<open>
  \<^verbatim>\<open>String.prototype.toLowerCase\<close> on code units below 256: the letters A to Z and the
  upper-case letters of Latin-1 (\<^verbatim>\<open>0xC0\<close> to \<^verbatim>\<open>0xDE\<close> without the multiplication sign) move
  up by 32, every other code unit stays.
\<close>

definition upper_chars :: string where
  "upper_chars = ''ABCDEFGHIJKLMNOPQRSTUVWXYZ'' @
     [CHR 0xC0, CHR 0xC1, CHR 0xC2, CHR 0xC3, CHR 0xC4, CHR 0xC5, CHR 0xC6, CHR 0xC7, CHR 0xC8, CHR 0xC9, CHR 0xCA, CHR 0xCB, CHR 0xCC, CHR 0xCD, CHR 0xCE, CHR 0xCF, CHR 0xD0, CHR 0xD1, CHR 0xD2, CHR 0xD3, CHR 0xD4, CHR 0xD5, CHR 0xD6, CHR 0xD8, CHR 0xD9, CHR 0xDA, CHR 0xDB, CHR 0xDC, CHR 0xDD, CHR 0xDE]"

definition lower_chars :: string where
  "lower_chars = ''abcdefghijklmnopqrstuvwxyz'' @
     [CHR 0xE0, CHR 0xE1, CHR 0xE2, CHR 0xE3, CHR 0xE4, CHR 0xE5, CHR 0xE6, CHR 0xE7, CHR 0xE8, CHR 0xE9, CHR 0xEA, CHR 0xEB, CHR 0xEC, CHR 0xED, CHR 0xEE, CHR 0xEF, CHR 0xF0, CHR 0xF1, CHR 0xF2, CHR 0xF3, CHR 0xF4, CHR 0xF5, CHR 0xF6, CHR 0xF8, CHR 0xF9, CHR 0xFA, CHR 0xFB, CHR 0xFC, CHR 0xFD, CHR 0xFE]"

definition toLowerCase_char :: "char \<Rightarrow> char" where
  "toLowerCase_char c =
     (case map_of (zip upper_chars lower_chars) c of Some l \<Rightarrow> l | None \<Rightarrow> c)"

definition toLowerCase :: "string \<Rightarrow> string" where
  "toLowerCase s = map toLowerCase_char s"

text \<open>\<^verbatim>\<open>startsWith\<close>, and \<^verbatim>\<open>replace\<close> with a string pattern, which replaces the first occurrence.\<close>

definition startsWith :: "string \<Rightarrow> string \<Rightarrow> bool" where
  "startsWith s p = (take (length p) s = p)"

fun replace_first :: "string \<Rightarrow> string \<Rightarrow> string \<Rightarrow> string" where
  "replace_first pat rep [] = (if pat = [] then rep else [])"
| "replace_first pat rep (c # cs) =
     (if startsWith (c # cs) pat then rep @ drop (length pat) (c # cs)
      else c # replace_first pat rep cs)"

text \<open>A number that is a non-negative integer, resp. an integer, converted to a string.\<close>

definition digit_char :: "nat \<Rightarrow> char" where
  "digit_char d = ''0123456789'' ! d"

function show_nat :: "nat \<Rightarrow> string" where
  "show_nat n = (if n < 10 then [digit_char n] else show_nat (n div 10) @ [digit_char (n mod 10)])"
  by pat_completeness auto
termination
  by (relation "measure id") auto

declare show_nat.simps [simp del]

definition show_int :: "int \<Rightarrow> string" where
  "show_int i = (if i < 0 then CHR ''-'' # show_nat (nat (- i)) else show_nat (nat i))"

section \<open>Audit Dashboard provider (\<^verbatim>\<open>views/AuditDashboard.ts\<close>)\<close>

text \<open>\<^verbatim>\<open>vscode.TreeItemCollapsibleState\<close>, a command attached to a tree item, and the tree item.\<close>

datatype collapsible_state = TreeItemNone | Collapsed | Expanded

record command =
  cmd_command :: string
  cmd_title :: string
  cmd_tooltip :: "string option"
  cmd_arguments :: "string list"

text \<open>
  A vulnerability as this provider reads it. \<open>title\<close> and \<open>location\<close> and the fields of the
  location may be absent; \<open>severity\<close> is read without a test, so it is a string.
\<close>

record location =
  loc_file :: "string option"
  loc_line :: "int option"
  loc_column :: "int option"

record vulnerability =
  v_id :: string
  v_title :: "string option"
  v_description :: string
  v_severity :: string
  v_location :: "location option"
  v_recommendation :: string

record audit_tree_item =
  label :: string
  description :: string
  tooltip :: string
  collapsibleState :: collapsible_state
  command :: "command option"
  contextValue :: "string option"
  iconPath :: "string option"

text \<open>The constructor of \<^verbatim>\<open>AuditTreeItem\<close>: the tooltip is the description.\<close>

definition AuditTreeItem ::
  "string \<Rightarrow> string \<Rightarrow> collapsible_state \<Rightarrow> command option \<Rightarrow> string option \<Rightarrow> string option
     \<Rightarrow> audit_tree_item" where
  "AuditTreeItem l d st cmd ctx icon =
     \<lparr>label = l, description = d, tooltip = d, collapsibleState = st, command = cmd,
      contextValue = ctx, iconPath = icon\<rparr>"

definition getSeverityIcon :: "string \<Rightarrow> string" where
  "getSeverityIcon severity =
     (let s = toLowerCase severity
      in if s = ''critical'' then ''error''
         else if s = ''high'' then ''warning''
         else if s = ''medium'' then ''warning''
         else if s = ''low'' then ''info''
         else ''info'')"

definition severities :: "string list" where
  "severities = [''Critical'', ''High'', ''Medium'', ''Low'', ''Informational'']"

text \<open>\<^verbatim>\<open>.filter(Boolean)\<close> on an array of items and \<^verbatim>\<open>null\<close>s.\<close>

definition filter_Boolean :: "'a option list \<Rightarrow> 'a list" where
  "filter_Boolean xs = map the (filter (\<lambda>x. x \<noteq> None) xs)"

text \<open>\<^verbatim>\<open>v || d\<close> for a string that may be absent: absent and empty give the default.\<close>

definition or_default :: "string option \<Rightarrow> string \<Rightarrow> string" where
  "or_default v d = (case v of None \<Rightarrow> d | Some s \<Rightarrow> if s = [] then d else s)"

text \<open>\<^verbatim>\<open>`${vuln.location?.file || 'Unknown file'}:${vuln.location?.line || '?'}`\<close>\<close>

definition location_text :: "location option \<Rightarrow> string" where
  "location_text loc =
     or_default (case loc of None \<Rightarrow> None | Some l \<Rightarrow> loc_file l) ''Unknown file'' @ '':'' @
     (case (case loc of None \<Rightarrow> None | Some l \<Rightarrow> loc_line l) of
        None \<Rightarrow> ''?''
      | Some n \<Rightarrow> if n = 0 then ''?'' else show_int n)"

text \<open>
  \<^verbatim>\<open>getChildren(element?)\<close> on the provider's list \<open>vulnerabilities\<close>: a placeholder when
  the list is empty, the severity groups at the root, the vulnerabilities of a severity
  under its group, nothing elsewhere.
\<close>

definition getChildren :: "vulnerability list \<Rightarrow> audit_tree_item option \<Rightarrow> audit_tree_item list" where
  "getChildren vulnerabilities element =
     (if length vulnerabilities = 0 then
        [AuditTreeItem ''No Vulnerabilities Found'' ''Run an audit to check for vulnerabilities''
           TreeItemNone
           (Some \<lparr>cmd_command = ''hivemind.auditContract'', cmd_title = ''Audit Contract'',
                   cmd_tooltip = Some ''Run a security audit on the current contract'',
                   cmd_arguments = []\<rparr>)
           None None]
      else case element of
        None \<Rightarrow>
          filter_Boolean
            (map (\<lambda>severity.
                    let vulnsForSeverity =
                          filter (\<lambda>v. toLowerCase (v_severity v) = toLowerCase severity)
                            vulnerabilities
                    in if length vulnsForSeverity = 0 then None
                       else Some (AuditTreeItem
                              (severity @ '' ('' @ show_nat (length vulnsForSeverity) @ '')'')
                              (show_nat (length vulnsForSeverity) @ '' '' @ toLowerCase severity
                                 @ '' severity issues'')
                              Collapsed None
                              (Some (''severity-'' @ toLowerCase severity))
                              (Some (getSeverityIcon severity))))
                 severities)
      | Some el \<Rightarrow>
          (case contextValue el of
             None \<Rightarrow> []
           | Some cv \<Rightarrow>
               if startsWith cv ''severity-'' then
                 (let severity = replace_first ''severity-'' [] cv;
                      vulnsForSeverity =
                        filter (\<lambda>v. toLowerCase (v_severity v) = toLowerCase severity)
                          vulnerabilities
                  in map (\<lambda>vuln. AuditTreeItem
                              (or_default (v_title vuln) ''Unnamed Vulnerability'')
                              (location_text (v_location vuln))
                              TreeItemNone
                              (Some \<lparr>cmd_command = ''hivemind.showVulnerability'',
                                      cmd_title = ''Show Vulnerability'', cmd_tooltip = None,
                                      cmd_arguments = [v_id vuln]\<rparr>)
                              (Some ''vulnerability'')
                              (Some ''bug''))
                       vulnsForSeverity)
               else []))"

text \<open>The two vulnerabilities \<^verbatim>\<open>auditContract\<close> of the provider hands to \<^verbatim>\<open>refresh\<close>.\<close>

definition mockVulnerabilities :: "string \<Rightarrow> vulnerability list" where
  "mockVulnerabilities filePath =
     [\<lparr>v_id = ''VULN-001'', v_title = Some ''Reentrancy Vulnerability'',
       v_description = ''Contract state is updated after external calls, potentially allowing reentrancy attacks.'',
       v_severity = ''High'',
       v_location = Some \<lparr>loc_file = Some filePath, loc_line = Some 25, loc_column = Some 4\<rparr>,
       v_recommendation = ''Update contract state before making external calls or use ReentrancyGuard.''\<rparr>,
      \<lparr>v_id = ''VULN-002'', v_title = Some ''Unchecked Return Value'',
       v_description = ''The return value of an external call is not checked.'',
       v_severity = ''Medium'',
       v_location = Some \<lparr>loc_file = Some filePath, loc_line = Some 42, loc_column = Some 8\<rparr>,
       v_recommendation = ''Check the return value of the external call and handle potential failures.''\<rparr>]"

text \<open>
  The number of vulnerabilities of a severity, compared as the provider compares severities
  (without regard to case), and the text a group is expected to show.
\<close>

definition severity_count :: "vulnerability list \<Rightarrow> string \<Rightarrow> nat" where
  "severity_count vs sev = length (filter (\<lambda>v. toLowerCase (v_severity v) = toLowerCase sev) vs)"

definition group_label :: "vulnerability list \<Rightarrow> string \<Rightarrow> string" where
  "group_label vs sev = sev @ '' ('' @ show_nat (severity_count vs sev) @ '')''"

section \<open>HTTP client wrapper (\<^verbatim>\<open>services/apiService.ts\<close>)\<close>

text \<open>
  The error the HTTP library hands to the response interceptor: \<open>err_response\<close> is absent
  for a transport failure, \<open>resp_data\<close> is the parsed response body, \<open>err_message\<close> the
  error's own message.
\<close>

record http_response =
  resp_data :: jsval

record axios_error =
  err_response :: "http_response option"
  err_message :: "string option"

text \<open>Reading a property: only an object has the properties of its body.\<close>

fun property :: "jsval \<Rightarrow> string \<Rightarrow> jsval" where
  "property (JObj kvs) name = (case map_of kvs name of Some v \<Rightarrow> v | None \<Rightarrow> JUndefined)"
| "property v name = JUndefined"

text \<open>\<^verbatim>\<open>error?.response?.data?.detail\<close>\<close>

definition response_detail :: "axios_error \<Rightarrow> jsval" where
  "response_detail err =
     (case err_response err of
        None \<Rightarrow> JUndefined
      | Some r \<Rightarrow> property (resp_data r) ''detail'')"

text \<open>
  The rejection handler of the interceptor:
  \<^verbatim>\<open>Promise.reject(error?.response?.data?.detail || error.message || 'Unknown error')\<close>.
\<close>

definition response_error_interceptor :: "axios_error \<Rightarrow> jsval" where
  "response_error_interceptor err =
     (if truthy (response_detail err) then response_detail err
      else JStr (or_default (err_message err) ''Unknown error''))"

fun isString :: "jsval \<Rightarrow> bool" where
  "isString (JStr s) = True"
| "isString v = False"

text \<open>A 422 response whose \<open>detail\<close> is a list of field errors.\<close>

definition validation_error :: axios_error where
  "validation_error =
     \<lparr>err_response = Some \<lparr>resp_data = JObj [(''detail'',
                  JArr [JObj [(''loc'', JArr [JStr ''body'', JStr ''code'']),
                              (''msg'', JStr ''field required'')]])]\<rparr>,
      err_message = Some ''Request failed with status code 422''\<rparr>"


section \<open>Solidity audit provider (\<^verbatim>\<open>SolidityAuditProvider\<close>)\<close>

text \<open>
  An entry of \<^verbatim>\<open>auditResult.static_analysis\<close> as this provider reads it: \<open>location\<close> is a
  free text that may be absent. The audit result itself may be absent, and so may its
  fields.
\<close>

record static_vulnerability =
  sv_title :: string
  sv_description :: string
  sv_severity :: string
  sv_location :: "string option"

record audit_result =
  static_analysis :: "static_vulnerability list option"
  ai_analysis :: "string option"

text \<open>
  The editor's side: a document with its lines, positions, ranges and diagnostics. A position
  refuses negative numbers, a range puts the earlier position first, \<^verbatim>\<open>lineAt\<close> refuses a
  line the document does not have.
\<close>

record text_document =
  doc_uri :: string
  doc_lines :: "string list"

record position =
  pos_line :: int
  pos_character :: int

record range =
  range_start :: position
  range_end :: position

datatype diagnostic_severity = DiagError | DiagWarning | DiagInformation | DiagHint

record diagnostic =
  diag_range :: range
  diag_message :: string
  diag_severity :: diagnostic_severity
  diag_source :: string
  diag_code :: string
  diag_relatedInformation :: "(string \<times> range \<times> string) list"

definition Position :: "int \<Rightarrow> int \<Rightarrow> thrown + position" where
  "Position l c =
     (if l < 0 then Inl (HostError ''line must be non-negative'')
      else if c < 0 then Inl (HostError ''character must be non-negative'')
      else Inr \<lparr>pos_line = l, pos_character = c\<rparr>)"

definition isBefore :: "position \<Rightarrow> position \<Rightarrow> bool" where
  "isBefore p q =
     (pos_line p < pos_line q \<or> (pos_line p = pos_line q \<and> pos_character p < pos_character q))"

definition Range :: "position \<Rightarrow> position \<Rightarrow> range" where
  "Range p q =
     (if isBefore p q then \<lparr>range_start = p, range_end = q\<rparr>
      else \<lparr>range_start = q, range_end = p\<rparr>)"

definition lineAt :: "text_document \<Rightarrow> int \<Rightarrow> thrown + string" where
  "lineAt document l =
     (if l < 0 \<or> int (length (doc_lines document)) \<le> l
      then Inl (HostError ''Illegal value for `line`'')
      else Inr (doc_lines document ! nat l))"

text \<open>
  The regular expression \<^verbatim>\<open>/line[s]?\s+(\d+)(?:-(\d+))?/i\<close>. \<^verbatim>\<open>\d\<close> is a digit 0 to 9,
  \<^verbatim>\<open>\s\<close> the white space among the code units below 256, and \<^verbatim>\<open>/i\<close> lets the letters of
  "lines" match in either case (no other code unit matches them).
\<close>

definition isDigit :: "char \<Rightarrow> bool" where
  "isDigit c = (c \<in> set ''0123456789'')"

definition isWhiteSpace :: "char \<Rightarrow> bool" where
  "isWhiteSpace c = (c \<in> set [CHR 0x09, CHR 0x0A, CHR 0x0B, CHR 0x0C, CHR 0x0D, CHR 0x20, CHR 0xA0])"

definition ascii_lower :: "char \<Rightarrow> char" where
  "ascii_lower c =
     (case map_of (zip ''ABCDEFGHIJKLMNOPQRSTUVWXYZ'' ''abcdefghijklmnopqrstuvwxyz'') c of
        Some l \<Rightarrow> l
      | None \<Rightarrow> c)"

text \<open>
  The match that starts at the first character: "line", an optional "s", white space, the
  digits of the first group, and the second group if a hyphen and digits follow. Every part
  is greedy and none can give back characters to let a later part match, so no backtracking
  is needed inside one start position.
\<close>

definition match_line_here :: "string \<Rightarrow> (string \<times> string option) option" where
  "match_line_here s =
     (if map ascii_lower (take 4 s) = ''line'' then
        (let r1 = drop 4 s;
             r2 = (case r1 of [] \<Rightarrow> r1 | c # cs \<Rightarrow> if ascii_lower c = CHR ''s'' then cs else r1);
             r3 = dropWhile isWhiteSpace r2;
             d1 = takeWhile isDigit r3;
             r4 = dropWhile isDigit r3
         in if takeWhile isWhiteSpace r2 = [] \<or> d1 = [] then None
            else (case r4 of
                    [] \<Rightarrow> Some (d1, None)
                  | c # cs \<Rightarrow>
                      if c = CHR ''-'' \<and> takeWhile isDigit cs \<noteq> []
                      then Some (d1, Some (takeWhile isDigit cs))
                      else Some (d1, None)))
      else None)"

text \<open>\<^verbatim>\<open>String.prototype.match\<close>: the match at the leftmost start position that has one.\<close>

fun match_line :: "string \<Rightarrow> (string \<times> string option) option" where
  "match_line [] = None"
| "match_line (c # cs) =
     (case match_line_here (c # cs) of
        Some m \<Rightarrow> Some m
      | None \<Rightarrow> match_line cs)"

text \<open>\<^verbatim>\<open>vuln.location?.match(...)\<close>: the two groups, or nothing.\<close>

definition lineMatch :: "static_vulnerability \<Rightarrow> (string \<times> string option) option" where
  "lineMatch vuln = (case sv_location vuln of None \<Rightarrow> None | Some l \<Rightarrow> match_line l)"

text \<open>\<^verbatim>\<open>parseInt\<close> on a string of digits.\<close>

definition digit_value :: "char \<Rightarrow> nat" where
  "digit_value c = length (takeWhile (\<lambda>d. d \<noteq> c) ''0123456789'')"

definition parseInt :: "string \<Rightarrow> int" where
  "parseInt ds = int (foldl (\<lambda>n c. 10 * n + digit_value c) 0 ds)"

text \<open>\<^verbatim>\<open>getSeverity\<close>, a \<^verbatim>\<open>switch\<close> on the lower-cased severity.\<close>

definition getSeverity :: "string \<Rightarrow> diagnostic_severity" where
  "getSeverity severity =
     (let s = toLowerCase severity
      in if s = ''critical'' then DiagError
         else if s = ''high'' then DiagError
         else if s = ''medium'' then DiagWarning
         else if s = ''low'' then DiagInformation
         else DiagHint)"

text \<open>
  The body of the \<^verbatim>\<open>forEach\<close> callback: nothing for a location without match, otherwise
  the diagnostic for the lines named, or the error of the first host call that refuses them.
\<close>

definition diagnostic_for :: "text_document \<Rightarrow> static_vulnerability \<Rightarrow> thrown + diagnostic option" where
  "diagnostic_for document vuln =
     (case lineMatch vuln of
        None \<Rightarrow> Inr None
      | Some (g1, g2) \<Rightarrow>
          (let startLine = parseInt g1 - 1;
               endLine = (case g2 of Some g \<Rightarrow> parseInt g - 1 | None \<Rightarrow> startLine)
           in case Position startLine 0 of
                Inl e \<Rightarrow> Inl e
              | Inr p1 \<Rightarrow>
                  (case lineAt document endLine of
                     Inl e \<Rightarrow> Inl e
                   | Inr text \<Rightarrow>
                       (case Position endLine (int (length text)) of
                          Inl e \<Rightarrow> Inl e
                        | Inr p2 \<Rightarrow>
                            Inr (Some \<lparr>diag_range = Range p1 p2,
                                       diag_message = sv_description vuln,
                                       diag_severity = getSeverity (sv_severity vuln),
                                       diag_source = ''HiveMind Audit'',
                                       diag_code = sv_title vuln,
                                       diag_relatedInformation =
                                         [(doc_uri document, Range p1 p2, sv_title vuln)]\<rparr>)))))"

text \<open>The \<^verbatim>\<open>forEach\<close> loop; \<open>diagnostics\<close> is the array pushed to. An error ends it.\<close>

fun forEach_vulnerability ::
  "text_document \<Rightarrow> static_vulnerability list \<Rightarrow> diagnostic list \<Rightarrow> thrown + diagnostic list" where
  "forEach_vulnerability document [] diagnostics = Inr diagnostics"
| "forEach_vulnerability document (vuln # rest) diagnostics =
     (case diagnostic_for document vuln of
        Inl e \<Rightarrow> Inl e
      | Inr None \<Rightarrow> forEach_vulnerability document rest diagnostics
      | Inr (Some d) \<Rightarrow> forEach_vulnerability document rest (diagnostics @ [d]))"

text \<open>
  \<^verbatim>\<open>updateDiagnostics(document, auditResult)\<close> on the diagnostic collection, a map from
  document URI to diagnostics: the entry of the document is deleted; with a non-empty list
  the diagnostics collected are set, unless the loop threw.
\<close>

type_synonym diagnostic_collection = "string \<rightharpoonup> diagnostic list"

definition updateDiagnostics ::
  "text_document \<Rightarrow> audit_result option \<Rightarrow> diagnostic_collection
     \<Rightarrow> thrown option \<times> diagnostic_collection" where
  "updateDiagnostics document auditResult coll =
     (let coll1 = coll(doc_uri document := None);
          vulnerabilities =
            (case auditResult of
               None \<Rightarrow> []
             | Some r \<Rightarrow> (case static_analysis r of None \<Rightarrow> [] | Some vs \<Rightarrow> vs))
      in if length vulnerabilities = 0 then (None, coll1)
         else (case forEach_vulnerability document vulnerabilities [] of
                 Inl e \<Rightarrow> (Some e, coll1)
               | Inr diagnostics \<Rightarrow> (None, coll1(doc_uri document \<mapsto> diagnostics))))"

text \<open>
  The pattern in words: a text has a line reference when it reads "line" or "lines" in any
  case, then white space, then digits; a location matches when it contains such a text.
\<close>

definition line_reference :: "string \<Rightarrow> bool" where
  "line_reference t \<longleftrightarrow>
     (\<exists>w s ws ds. t = w @ s @ ws @ ds
        \<and> map ascii_lower w = ''line''
        \<and> (s = [] \<or> (\<exists>c. s = [c] \<and> ascii_lower c = CHR ''s''))
        \<and> ws \<noteq> [] \<and> (\<forall>c \<in> set ws. isWhiteSpace c)
        \<and> ds \<noteq> [] \<and> (\<forall>c \<in> set ds. isDigit c))"

definition location_matches :: "string \<Rightarrow> bool" where
  "location_matches l \<longleftrightarrow> (\<exists>pre t rest. l = pre @ t @ rest \<and> line_reference t)"

text \<open>A vulnerability whose location is absent or does not match.\<close>

definition unparsable :: "static_vulnerability \<Rightarrow> bool" where
  "unparsable vuln =
     (case sv_location vuln of None \<Rightarrow> True | Some l \<Rightarrow> \<not> location_matches l)"

text \<open>A document of three lines and a vulnerability with a given location, to run the provider on.\<close>

definition token_document :: text_document where
  "token_document =
     \<lparr>doc_uri = ''file:///Token.sol'',
      doc_lines = [''contract Token {'', ''  uint256 total;'', ''}'']\<rparr>"

definition vulnerability_at :: "string option \<Rightarrow> static_vulnerability" where
  "vulnerability_at l =
     \<lparr>sv_title = ''Reentrancy'', sv_description = ''State is written after an external call'',
      sv_severity = ''High'', sv_location = l\<rparr>"


section \<open>Webview panels (\<^verbatim>\<open>AgentHubPanel\<close>, \<^verbatim>\<open>AuditDashboardPanel\<close>)\<close>

text \<open>
  The editor window holds the webview panels that are open, each with an identifier and its
  content: the Agent Hub page, the Audit Dashboard page rendered from an audit result (the
  HTML is a function of the result, apart from a script nonce), or nothing yet for a panel
  of the Audit Dashboard that the host has created and whose \<^verbatim>\<open>html\<close> was never set. Each
  class keeps the panel it has opened in its static \<^verbatim>\<open>currentPanel\<close>. The calls made to the
  host are recorded.
\<close>

datatype webview = AgentHubWebview | AuditDashboardWebview jsval | BlankAuditDashboard

datatype host_call =
    CreateWebviewPanel nat string int
  | Reveal nat "int option"
  | DisposePanel nat

record window =
  panels :: "(nat \<times> webview) list"
  next_panel :: nat
  AgentHubPanel_currentPanel :: "nat option"
  AuditDashboardPanel_currentPanel :: "nat option"
  host_calls :: "host_call list"

definition initial_window :: window where
  "initial_window =
     \<lparr>panels = [], next_panel = 0, AgentHubPanel_currentPanel = None,
      AuditDashboardPanel_currentPanel = None, host_calls = []\<rparr>"

text \<open>\<^verbatim>\<open>column || vscode.ViewColumn.One\<close>\<close>

definition column_or_One :: "int option \<Rightarrow> int" where
  "column_or_One column = (case column of None \<Rightarrow> 1 | Some c \<Rightarrow> if c = 0 then 1 else c)"

text \<open>
  \<^verbatim>\<open>AgentHubPanel.createOrShow\<close>: a panel that is there is revealed; otherwise a panel is
  created, its page is set by the constructor, and it becomes the current panel. The page
  of the Agent Hub is built from the extension's location alone.
\<close>

definition AgentHubPanel_createOrShow :: "int option \<Rightarrow> window \<Rightarrow> window" where
  "AgentHubPanel_createOrShow column w =
     (case AgentHubPanel_currentPanel w of
        Some p \<Rightarrow> w\<lparr>host_calls := host_calls w @ [Reveal p column]\<rparr>
      | None \<Rightarrow>
          (let p = next_panel w
           in w\<lparr>panels := panels w @ [(p, AgentHubWebview)],
                next_panel := Suc p,
                AgentHubPanel_currentPanel := Some p,
                host_calls := host_calls w
                  @ [CreateWebviewPanel p ''hivemindAgentHub'' (column_or_One column)]\<rparr>))"

text \<open>
  \<^verbatim>\<open>_getHtmlForWebview(webview, extensionUri, auditResult)\<close> of the Audit Dashboard; the
  audit result is of type \<^verbatim>\<open>any\<close>. \<open>staticAnalysis\<close> is
  \<^verbatim>\<open>auditResult?.static_analysis || []\<close>. The loop that counts the severities evaluates
  \<^verbatim>\<open>vuln.severity.toLowerCase()\<close> for every entry: the runtime throws a \<^verbatim>\<open>TypeError\<close> when
  \<open>staticAnalysis\<close> has no \<^verbatim>\<open>forEach\<close>, when an entry is \<^verbatim>\<open>null\<close> or \<^verbatim>\<open>undefined\<close>, and when
  the severity of an entry is not a string. When the loop gets through, so does the rest of
  the function, and the page of the result is returned.
\<close>

definition staticAnalysis :: "jsval \<Rightarrow> jsval" where
  "staticAnalysis auditResult =
     (if truthy (property auditResult ''static_analysis'')
      then property auditResult ''static_analysis''
      else JArr [])"

definition severity_toLowerCase :: "jsval \<Rightarrow> thrown + string" where
  "severity_toLowerCase vuln =
     (case vuln of
        JUndefined \<Rightarrow> Inl (TypeError ''Cannot read properties of undefined'')
      | JNull \<Rightarrow> Inl (TypeError ''Cannot read properties of null'')
      | _ \<Rightarrow>
          (case property vuln ''severity'' of
             JStr sev \<Rightarrow> Inr (toLowerCase sev)
           | JUndefined \<Rightarrow> Inl (TypeError ''Cannot read properties of undefined'')
           | JNull \<Rightarrow> Inl (TypeError ''Cannot read properties of null'')
           | _ \<Rightarrow> Inl (TypeError ''vuln.severity.toLowerCase is not a function'')))"

fun forEach_severity :: "jsval list \<Rightarrow> thrown option" where
  "forEach_severity [] = None"
| "forEach_severity (vuln # rest) =
     (case severity_toLowerCase vuln of
        Inl e \<Rightarrow> Some e
      | Inr sev \<Rightarrow> forEach_severity rest)"

definition AuditDashboardPanel_getHtmlForWebview :: "jsval \<Rightarrow> thrown + webview" where
  "AuditDashboardPanel_getHtmlForWebview auditResult =
     (case staticAnalysis auditResult of
        JArr vulns \<Rightarrow>
          (case forEach_severity vulns of
             Some e \<Rightarrow> Inl e
           | None \<Rightarrow> Inr (AuditDashboardWebview auditResult))
      | _ \<Rightarrow> Inl (TypeError ''staticAnalysis.forEach is not a function''))"

text \<open>
  \<^verbatim>\<open>AuditDashboardPanel.createOrShow\<close>. A panel that is there is revealed, then its page is
  rendered from the audit result and set. Otherwise the host creates a panel and the
  constructor of the class renders the page, sets it and registers the listeners; only when
  the constructor has returned is the object stored in \<^verbatim>\<open>currentPanel\<close>. Nothing catches what
  the rendering throws: the call ends there, with the panel revealed or created.
\<close>

definition set_html :: "nat \<Rightarrow> webview \<Rightarrow> (nat \<times> webview) list \<Rightarrow> (nat \<times> webview) list" where
  "set_html p h ps = map (\<lambda>(i, c). if i = p then (i, h) else (i, c)) ps"

definition AuditDashboardPanel_createOrShow ::
  "int option \<Rightarrow> jsval \<Rightarrow> window \<Rightarrow> thrown option \<times> window" where
  "AuditDashboardPanel_createOrShow column auditResult w =
     (case AuditDashboardPanel_currentPanel w of
        Some p \<Rightarrow>
          (let w1 = w\<lparr>host_calls := host_calls w @ [Reveal p column]\<rparr>
           in case AuditDashboardPanel_getHtmlForWebview auditResult of
                Inl e \<Rightarrow> (Some e, w1)
              | Inr page \<Rightarrow> (None, w1\<lparr>panels := set_html p page (panels w1)\<rparr>))
      | None \<Rightarrow>
          (let p = next_panel w;
               w1 = w\<lparr>panels := panels w @ [(p, BlankAuditDashboard)],
                       next_panel := Suc p,
                       host_calls := host_calls w
                         @ [CreateWebviewPanel p ''hivemindAuditDashboard''
                              (column_or_One column)]\<rparr>
           in case AuditDashboardPanel_getHtmlForWebview auditResult of
                Inl e \<Rightarrow> (Some e, w1)
              | Inr page \<Rightarrow>
                  (None, w1\<lparr>panels := set_html p page (panels w1),
                              AuditDashboardPanel_currentPanel := Some p\<rparr>)))"

text \<open>
  \<^verbatim>\<open>dispose()\<close> of the object that wraps panel \<open>p\<close>: the static reference is cleared and
  the panel disposed of.
\<close>

definition AgentHubPanel_dispose :: "nat \<Rightarrow> window \<Rightarrow> window" where
  "AgentHubPanel_dispose p w =
     w\<lparr>AgentHubPanel_currentPanel := None,
       panels := filter (\<lambda>(i, c). i \<noteq> p) (panels w),
       host_calls := host_calls w @ [DisposePanel p]\<rparr>"

definition AuditDashboardPanel_dispose :: "nat \<Rightarrow> window \<Rightarrow> window" where
  "AuditDashboardPanel_dispose p w =
     w\<lparr>AuditDashboardPanel_currentPanel := None,
       panels := filter (\<lambda>(i, c). i \<noteq> p) (panels w),
       host_calls := host_calls w @ [DisposePanel p]\<rparr>"

text \<open>
  What happens to the window: the two commands that show a panel (the command that shows
  the Audit Dashboard gets the reply of the audit request as it came), and the user closing
  a panel, on which the host runs the \<^verbatim>\<open>onDidDispose\<close> listener of the object that wraps
  it. A panel whose constructor did not get as far as registering the listener is just closed.
\<close>

datatype window_event =
    ShowAgentHub "int option"
  | ShowAuditDashboard "int option" jsval
  | ClosePanel nat

fun window_step :: "window \<Rightarrow> window_event \<Rightarrow> window" where
  "window_step w (ShowAgentHub column) = AgentHubPanel_createOrShow column w"
| "window_step w (ShowAuditDashboard column auditResult) =
     snd (AuditDashboardPanel_createOrShow column auditResult w)"
| "window_step w (ClosePanel p) =
     (case map_of (panels w) p of
        None \<Rightarrow> w
      | Some AgentHubWebview \<Rightarrow> AgentHubPanel_dispose p w
      | Some (AuditDashboardWebview r) \<Rightarrow> AuditDashboardPanel_dispose p w
      | Some BlankAuditDashboard \<Rightarrow> w\<lparr>panels := filter (\<lambda>(i, c). i \<noteq> p) (panels w)\<rparr>)"

definition window_run :: "window_event list \<Rightarrow> window" where
  "window_run evs = foldl window_step initial_window evs"

text \<open>The panels of each type that are open.\<close>

definition agent_hub_panels :: "window \<Rightarrow> nat list" where
  "agent_hub_panels w = map fst (filter (\<lambda>(i, c). c = AgentHubWebview) (panels w))"

definition audit_dashboard_panels :: "window \<Rightarrow> nat list" where
  "audit_dashboard_panels w = map fst (filter (\<lambda>(i, c). c \<noteq> AgentHubWebview) (panels w))"

definition option_list :: "'a option \<Rightarrow> 'a list" where
  "option_list x = (case x of None \<Rightarrow> [] | Some a \<Rightarrow> [a])"

text \<open>
  The panels of the Audit Dashboard that show a page, and those that were left blank.
\<close>

definition dashboard_pages :: "window \<Rightarrow> nat list" where
  "dashboard_pages w =
     map fst (filter (\<lambda>(i, c). c \<noteq> AgentHubWebview \<and> c \<noteq> BlankAuditDashboard) (panels w))"

definition blank_panels :: "window \<Rightarrow> nat list" where
  "blank_panels w = map fst (filter (\<lambda>(i, c). c = BlankAuditDashboard) (panels w))"

text \<open>
  What the two classes keep track of: the open Agent Hub panels are exactly the current
  panel of \<open>AgentHubPanel\<close>, the Audit Dashboard panels that show a page are exactly the
  current panel of \<open>AuditDashboardPanel\<close>; panel identifiers are distinct and below the next
  one to be given out.
\<close>

definition tracked_panels :: "window \<Rightarrow> bool" where
  "tracked_panels w \<longleftrightarrow>
     agent_hub_panels w = option_list (AgentHubPanel_currentPanel w)
     \<and> dashboard_pages w = option_list (AuditDashboardPanel_currentPanel w)
     \<and> distinct (map fst (panels w))
     \<and> (\<forall>i \<in> set (map fst (panels w)). i < next_panel w)"

text \<open>An event whose audit result, if it has one, can be rendered.\<close>

fun renders :: "window_event \<Rightarrow> bool" where
  "renders (ShowAuditDashboard column auditResult) =
     (case AuditDashboardPanel_getHtmlForWebview auditResult of Inl e \<Rightarrow> False | Inr page \<Rightarrow> True)"
| "renders ev = True"

text \<open>
  Audit results: one with a finding of high severity, one without findings, and one whose
  finding has no severity. Then a run in which both panels are shown, the dashboard is
  closed and shown again.
\<close>

definition audit_high :: jsval where
  "audit_high =
     JObj [(''static_analysis'',
            JArr [JObj [(''title'', JStr ''Reentrancy''), (''severity'', JStr ''High''),
                        (''description'', JStr ''State is written after an external call''),
                        (''location'', JStr ''line 2'')]]),
           (''ai_analysis'', JStr ''One finding.'')]"

definition audit_clean :: jsval where
  "audit_clean = JObj [(''static_analysis'', JArr []), (''ai_analysis'', JStr ''No findings.'')]"

definition audit_without_severity :: jsval where
  "audit_without_severity =
     JObj [(''static_analysis'',
            JArr [JObj [(''title'', JStr ''Reentrancy''),
                        (''description'', JStr ''State is written after an external call'')]]),
           (''ai_analysis'', JStr ''One finding.'')]"

definition window_example :: "window_event list" where
  "window_example =
     [ShowAgentHub None, ShowAuditDashboard None audit_high, ClosePanel 1,
      ShowAuditDashboard (Some 3) audit_clean]"


section \<open>Deployment utilities (\<^verbatim>\<open>utils/deploymentUtils.ts\<close>)\<close>

text \<open>
  A record of the Transaction Center, as the deployment utilities build it. \<open>bytecodeSize\<close>
  is \<^verbatim>\<open>bytecode.length / 2 - 1\<close>, a fraction when the length is odd.
\<close>

record transaction =
  tx_id :: jsval
  tx_type :: string
  tx_timestamp :: int
  tx_status :: string
  tx_contractId :: string
  tx_function :: "string option"
  tx_gas :: jsval
  tx_bytecodeSize :: "rat option"

text \<open>What the remote API answers to a compile request, as far as the utilities read it.\<close>

record compilation_result =
  cr_success :: bool
  cr_error :: "string option"
  cr_abi :: "abi_item list"
  cr_bytecode :: string

text \<open>
  The parameters of the utilities. \<open>compileContract\<close> of the API service gives the response
  data or the value the request was rejected with (as its string conversion). The runtime
  gathers the library and host functions called: the file system, \<^verbatim>\<open>path.extname\<close> and
  \<^verbatim>\<open>path.basename\<close>, \<^verbatim>\<open>JSON.parse\<close> (\<open>None\<close> when it throws), \<^verbatim>\<open>Date.now()\<close>, and the user in
  front of the input box: \<open>showInputBox i prompt placeHolder\<close> is the answer to the box
  shown after \<open>i\<close> others, \<open>None\<close> when the box is dismissed.
\<close>

record api_service =
  compileContract :: "string \<Rightarrow> string + compilation_result"

record runtime =
  existsSync :: "string \<Rightarrow> bool"
  readFileSync :: "string \<Rightarrow> string + string"
  extname :: "string \<Rightarrow> string"
  basename :: "string \<Rightarrow> string \<Rightarrow> string"
  json_parse :: "string \<Rightarrow> jsval option"
  date_now :: int
  showInputBox :: "nat \<Rightarrow> string \<Rightarrow> string \<Rightarrow> string option"

text \<open>
  The blockchain wrapper as the utilities call it: the four methods used, each giving its
  outcome and what the wrapper did. \<open>HederaService_api\<close> is the wrapper of this repository
  in a given state.
\<close>

datatype hedera_call =
    DeployContract string jsval
  | RegisterContract string jsval
  | GetContractInfo string
  | CallContractMethod string string bool int

record hedera_api =
  api_deployContract :: "string \<Rightarrow> jsval \<Rightarrow> (thrown + string) \<times> effect list"
  api_registerContract :: "string \<Rightarrow> jsval \<Rightarrow> (thrown + string) \<times> effect list"
  api_getContractInfo :: "string \<Rightarrow> (thrown + contract_info option) \<times> effect list"
  api_callContractMethod ::
    "string \<Rightarrow> string \<Rightarrow> bool \<Rightarrow> int \<Rightarrow> (thrown + jsval) \<times> effect list"

definition HederaService_api :: "sdk \<Rightarrow> int \<Rightarrow> hedera_service \<Rightarrow> hedera_api" where
  "HederaService_api k now s =
     \<lparr>api_deployContract = (\<lambda>bytecode params. deployContract k bytecode params s),
      api_registerContract = (\<lambda>contractId metadata. registerContract k now contractId metadata s),
      api_getContractInfo = (\<lambda>contractId. getContractInfo now contractId s),
      api_callContractMethod =
        (\<lambda>contractId method params gas. callContractMethod k contractId method params gas s)\<rparr>"

text \<open>
  What the utilities do outside, in the order they do it: \<^verbatim>\<open>console.error\<close>, a progress
  report, the compile request, an input box, a call of the wrapper (with what the wrapper
  did), an information or error message, the command that adds a transaction to the
  Transaction Center (its promise is not awaited).
\<close>

datatype ui_effect =
    Log string thrown
  | ProgressReport string
  | ApiCompileContract string
  | ShowInputBox string string
  | HederaCall hedera_call "effect list"
  | ShowInformationMessage string
  | ShowErrorMessage string
  | ExecuteAddTransaction transaction

type_synonym 'a outcome = "(thrown + 'a) \<times> ui_effect list"

text \<open>
  Sequencing of awaited steps: \<open>and_then m f\<close> runs \<open>m\<close> and, unless it threw, goes on with
  \<open>f\<close> on its value; the traces follow each other.
\<close>

definition and_then :: "'a outcome \<Rightarrow> ('a \<Rightarrow> 'b outcome) \<Rightarrow> 'b outcome" where
  "and_then m f =
     (case m of
        (Inl e, t) \<Rightarrow> (Inl e, t)
      | (Inr v, t) \<Rightarrow> (case f v of (r, t') \<Rightarrow> (r, t @ t')))"

definition emit :: "ui_effect list \<Rightarrow> unit outcome" where
  "emit evs = (Inr (), evs)"

definition throw :: "thrown \<Rightarrow> 'a outcome" where
  "throw e = (Inl e, [])"

definition result :: "'a \<Rightarrow> 'a outcome" where
  "result v = (Inr v, [])"

definition hedera_call :: "hedera_call \<Rightarrow> (thrown + 'a) \<times> effect list \<Rightarrow> 'a outcome" where
  "hedera_call c r = (fst r, [HederaCall c (snd r)])"

text \<open>
  \<^verbatim>\<open>catch (error) { console.error(failure + ':', error);
  vscode.window.showErrorMessage(`${failure}: ${error}`); throw error; }\<close>
\<close>

definition catch_notify :: "string \<Rightarrow> 'a outcome \<Rightarrow> 'a outcome" where
  "catch_notify failure r =
     (case r of
        (Inl e, t) \<Rightarrow>
          (Inl e, t @ [Log (failure @ '':'') e,
                       ShowErrorMessage (failure @ '': '' @ thrown_toString e)])
      | (Inr v, t) \<Rightarrow> (Inr v, t))"

definition endsWith :: "string \<Rightarrow> string \<Rightarrow> bool" where
  "endsWith s p = (length p \<le> length s \<and> drop (length s - length p) s = p)"

definition isSolidityFile :: "runtime \<Rightarrow> string \<Rightarrow> bool" where
  "isSolidityFile rt filePath = (toLowerCase (extname rt filePath) = ''.sol'')"

text \<open>
  \<^verbatim>\<open>SolidityUtils.extractContractName\<close>: the first match of \<^verbatim>\<open>/contract\s+(\w+)/\<close> in the
  file, otherwise the base name of the path without \<^verbatim>\<open>.sol\<close>; a file that cannot be read
  is logged and gives the base name too.
\<close>

definition isWordChar :: "char \<Rightarrow> bool" where
  "isWordChar c =
     (c \<in> set (''abcdefghijklmnopqrstuvwxyz'' @ ''ABCDEFGHIJKLMNOPQRSTUVWXYZ'' @ ''0123456789_''))"

definition match_contract_here :: "string \<Rightarrow> string option" where
  "match_contract_here s =
     (if take 8 s = ''contract'' then
        (let r = drop 8 s;
             name = takeWhile isWordChar (dropWhile isWhiteSpace r)
         in if takeWhile isWhiteSpace r = [] \<or> name = [] then None else Some name)
      else None)"

fun match_contract :: "string \<Rightarrow> string option" where
  "match_contract [] = None"
| "match_contract (c # cs) =
     (case match_contract_here (c # cs) of
        Some name \<Rightarrow> Some name
      | None \<Rightarrow> match_contract cs)"

definition extractContractName :: "runtime \<Rightarrow> string \<Rightarrow> string \<times> ui_effect list" where
  "extractContractName rt filePath =
     (case readFileSync rt filePath of
        Inl m \<Rightarrow>
          (basename rt filePath ''.sol'',
           [Log ''Failed to extract contract name:'' (HostError m)])
      | Inr content \<Rightarrow>
          (case match_contract content of
             Some name \<Rightarrow> (name, [])
           | None \<Rightarrow> (basename rt filePath ''.sol'', [])))"

text \<open>\<^verbatim>\<open>convertParam(param, type)\<close>, the \<^verbatim>\<open>if\<close> chain of the source in its order.\<close>

definition convertParam :: "runtime \<Rightarrow> string \<Rightarrow> string \<Rightarrow> thrown + jsval" where
  "convertParam rt param type =
     (if startsWith type ''uint'' \<or> startsWith type ''int'' then Inr (JStr param)
      else if type = ''bool'' then Inr (JBool (toLowerCase param = ''true''))
      else if type = ''address'' then Inr (JStr param)
      else if type = ''string'' then Inr (JStr param)
      else if startsWith type ''bytes'' then Inr (JStr param)
      else if endsWith type ''[]'' then
        (case json_parse rt param of
           Some v \<Rightarrow> Inr v
         | None \<Rightarrow> Inl (Error (''Invalid array format for parameter of type '' @ type)))
      else Inr (JStr param))"

text \<open>
  The loop over the inputs of a constructor or method: an input box for each input; a box
  that is dismissed throws \<open>cancelled\<close>, a value that cannot be converted throws the
  conversion's error, otherwise the converted value is pushed.
\<close>

definition input_prompt :: "string \<Rightarrow> abi_input \<Rightarrow> string" where
  "input_prompt what input =
     ''Enter value for '' @ what @ '' '' @ [CHR 0x22] @ input_name input @ [CHR 0x22]
       @ '' ('' @ input_type input @ '')''"

fun prompt_inputs ::
  "runtime \<Rightarrow> string \<Rightarrow> string \<Rightarrow> nat \<Rightarrow> abi_input list \<Rightarrow> jsval list \<Rightarrow> (jsval list) outcome" where
  "prompt_inputs rt what cancelled i [] params = result params"
| "prompt_inputs rt what cancelled i (input # rest) params =
     and_then (emit [ShowInputBox (input_prompt what input) (input_type input @ '' value'')])
       (\<lambda>_. case showInputBox rt i (input_prompt what input) (input_type input @ '' value'') of
               None \<Rightarrow> throw (Error cancelled)
             | Some param \<Rightarrow>
                 (case convertParam rt param (input_type input) of
                    Inl e \<Rightarrow> throw e
                  | Inr v \<Rightarrow> prompt_inputs rt what cancelled (Suc i) rest (params @ [v])))"

definition getConstructorParams :: "runtime \<Rightarrow> abi_item list \<Rightarrow> (jsval list) outcome" where
  "getConstructorParams rt abi =
     (case find (\<lambda>item. item_type item = ''constructor'') abi of
        None \<Rightarrow> result []
      | Some c \<Rightarrow>
          (case inputs c of
             None \<Rightarrow> result []
           | Some ins \<Rightarrow>
               if length ins = 0 then result []
               else prompt_inputs rt ''constructor parameter'' ''Deployment cancelled'' 0 ins []))"

definition getMethodParams :: "runtime \<Rightarrow> abi_item \<Rightarrow> (jsval list) outcome" where
  "getMethodParams rt method =
     (case inputs method of
        None \<Rightarrow> result []
      | Some ins \<Rightarrow>
          if length ins = 0 then result []
          else prompt_inputs rt ''parameter'' ''Method call cancelled'' 0 ins [])"

text \<open>The metadata object \<^verbatim>\<open>{name, abi, bytecode}\<close> handed to \<^verbatim>\<open>registerContract\<close>.\<close>

definition abi_input_value :: "abi_input \<Rightarrow> jsval" where
  "abi_input_value i = JObj [(''name'', JStr (input_name i)), (''type'', JStr (input_type i))]"

definition optional_string :: "string option \<Rightarrow> jsval" where
  "optional_string v = (case v of None \<Rightarrow> JUndefined | Some s \<Rightarrow> JStr s)"

definition abi_item_value :: "abi_item \<Rightarrow> jsval" where
  "abi_item_value item =
     JObj [(''type'', JStr (item_type item)),
           (''name'', optional_string (item_name item)),
           (''inputs'', case inputs item of
                          None \<Rightarrow> JUndefined
                        | Some ins \<Rightarrow> JArr (map abi_input_value ins)),
           (''stateMutability'', optional_string (stateMutability item))]"

definition registrationMetadata :: "string \<Rightarrow> compilation_result \<Rightarrow> jsval" where
  "registrationMetadata contractName cr =
     JObj [(''name'', JStr contractName),
           (''abi'', JArr (map abi_item_value (cr_abi cr))),
           (''bytecode'', JStr (cr_bytecode cr))]"

text \<open>The transaction record of a deployment.\<close>

definition deploy_transaction :: "int \<Rightarrow> string \<Rightarrow> string \<Rightarrow> transaction" where
  "deploy_transaction now contractId bytecode =
     \<lparr>tx_id = JStr (''deploy-'' @ show_int now), tx_type = ''CONTRACT_DEPLOY'',
      tx_timestamp = now, tx_status = ''SUCCESS'', tx_contractId = contractId,
      tx_function = None, tx_gas = JNum 500000,
      tx_bytecodeSize = Some (of_nat (length bytecode) / 2 - 1)\<rparr>"

text \<open>
  The task \<^verbatim>\<open>deployContract\<close> runs under the progress notification, step by step as in
  the source.
\<close>

definition deploy_task ::
  "runtime \<Rightarrow> api_service \<Rightarrow> hedera_api \<Rightarrow> string \<Rightarrow> string \<Rightarrow> string outcome" where
  "deploy_task rt api h filePath code =
     and_then (emit [ProgressReport ''Compiling contract...'', ApiCompileContract code]) (\<lambda>_.
     and_then (case compileContract api code of
                 Inl r \<Rightarrow> throw (ApiRejection r)
               | Inr cr \<Rightarrow> result cr) (\<lambda>compilationResult.
     and_then (if \<not> cr_success compilationResult
               then throw (Error (''Compilation failed: '' @
                      (case cr_error compilationResult of None \<Rightarrow> ''undefined'' | Some m \<Rightarrow> m)))
               else emit [ProgressReport ''Preparing deployment...'']) (\<lambda>_.
     and_then (getConstructorParams rt (cr_abi compilationResult)) (\<lambda>constructorParams.
     and_then (emit [ProgressReport ''Deploying to Hedera...'']) (\<lambda>_.
     and_then (hedera_call (DeployContract (cr_bytecode compilationResult) (JArr constructorParams))
                 (api_deployContract h (cr_bytecode compilationResult) (JArr constructorParams)))
       (\<lambda>contractId.
     and_then (emit (ProgressReport ''Registering contract...''
                     # snd (extractContractName rt filePath))) (\<lambda>_.
     and_then (hedera_call
                 (RegisterContract contractId
                    (registrationMetadata (fst (extractContractName rt filePath)) compilationResult))
                 (api_registerContract h contractId
                    (registrationMetadata (fst (extractContractName rt filePath)) compilationResult)))
       (\<lambda>_.
     and_then (emit [ShowInformationMessage
                       (''Contract deployed successfully! Contract ID: '' @ contractId),
                     ExecuteAddTransaction
                       (deploy_transaction (date_now rt) contractId
                          (cr_bytecode compilationResult))]) (\<lambda>_.
     result contractId)))))))))"

text \<open>
  \<^verbatim>\<open>DeploymentUtils.deployContract(filePath, apiService, hederaService)\<close>: the checks of the
  file, then the task; whatever is thrown is logged, shown and thrown on.
\<close>

definition DeploymentUtils_deployContract ::
  "runtime \<Rightarrow> api_service \<Rightarrow> hedera_api \<Rightarrow> string \<Rightarrow> string outcome" where
  "DeploymentUtils_deployContract rt api h filePath =
     catch_notify ''Failed to deploy contract''
       (if \<not> existsSync rt filePath then throw (Error (''File not found: '' @ filePath))
        else if \<not> isSolidityFile rt filePath
             then throw (Error ''Only Solidity files can be deployed'')
        else (case readFileSync rt filePath of
                Inl m \<Rightarrow> throw (HostError m)
              | Inr code \<Rightarrow> deploy_task rt api h filePath code))"

text \<open>
  \<^verbatim>\<open>DeploymentUtils.callContractMethod(contractId, methodName, hederaService)\<close>. Reading a
  property of \<^verbatim>\<open>null\<close> or \<^verbatim>\<open>undefined\<close> throws.
\<close>

definition property_of :: "jsval \<Rightarrow> string \<Rightarrow> thrown + jsval" where
  "property_of v name =
     (case v of
        JUndefined \<Rightarrow> Inl (HostError ''Cannot read properties of undefined'')
      | JNull \<Rightarrow> Inl (HostError ''Cannot read properties of null'')
      | _ \<Rightarrow> Inr (property v name))"

definition call_transaction :: "int \<Rightarrow> string \<Rightarrow> string \<Rightarrow> jsval \<Rightarrow> jsval \<Rightarrow> transaction" where
  "call_transaction now contractId methodName transactionId gasUsed =
     \<lparr>tx_id = transactionId, tx_type = ''CONTRACT_CALL'', tx_timestamp = now,
      tx_status = ''SUCCESS'', tx_contractId = contractId, tx_function = Some methodName,
      tx_gas = gasUsed, tx_bytecodeSize = None\<rparr>"

definition isReadOnly :: "abi_item \<Rightarrow> bool" where
  "isReadOnly method =
     (stateMutability method = Some ''view'' \<or> stateMutability method = Some ''pure'')"

definition DeploymentUtils_callContractMethod ::
  "runtime \<Rightarrow> hedera_api \<Rightarrow> string \<Rightarrow> string \<Rightarrow> jsval outcome" where
  "DeploymentUtils_callContractMethod rt h contractId methodName =
     catch_notify ''Failed to call contract method''
      (and_then (hedera_call (GetContractInfo contractId) (api_getContractInfo h contractId))
         (\<lambda>contractInfo.
       and_then (case contractInfo of
                   None \<Rightarrow>
                     throw (Error (''Contract '' @ contractId @ '' not found or ABI not available''))
                 | Some info \<Rightarrow>
                     (case ci_abi info of
                        None \<Rightarrow>
                          throw (Error (''Contract '' @ contractId
                                          @ '' not found or ABI not available''))
                      | Some abi \<Rightarrow> result abi)) (\<lambda>abi.
       and_then (case find (\<lambda>item. item_type item = ''function''
                                     \<and> item_name item = Some methodName) abi of
                   None \<Rightarrow>
                     throw (Error (''Method '' @ methodName @ '' not found in contract ABI''))
                 | Some m \<Rightarrow> result m) (\<lambda>method.
       and_then (getMethodParams rt method) (\<lambda>params.
       and_then (hedera_call (CallContractMethod contractId methodName False 100000)
                   (api_callContractMethod h contractId methodName False 100000)) (\<lambda>res.
       and_then (emit [ShowInformationMessage
                         (''Contract method '' @ methodName @ '' ''
                            @ (if isReadOnly method then ''called'' else ''executed'')
                            @ '' successfully!'')]) (\<lambda>_.
       and_then (if \<not> isReadOnly method then
                   (case property_of res ''transactionId'' of
                      Inl e \<Rightarrow> throw e
                    | Inr transactionId \<Rightarrow>
                        emit [ExecuteAddTransaction
                                (call_transaction (date_now rt) contractId methodName
                                   transactionId (property res ''gasUsed''))])
                 else emit []) (\<lambda>_.
       result res))))))))"

text \<open>
  The steps of the pipelines that a trace shows: the compile request, an input box, the
  calls of the wrapper, the success message, the add-transaction command (append), the
  error message.
\<close>

datatype step =
  Compile | Prompt | Deploy | Register | GetInfo | Call | Message | Append | ErrorNotice

fun step_of :: "ui_effect \<Rightarrow> step list" where
  "step_of (Log l e) = []"
| "step_of (ProgressReport m) = []"
| "step_of (ApiCompileContract code) = [Compile]"
| "step_of (ShowInputBox p ph) = [Prompt]"
| "step_of (HederaCall (DeployContract b ps) t) = [Deploy]"
| "step_of (HederaCall (RegisterContract c m) t) = [Register]"
| "step_of (HederaCall (GetContractInfo c) t) = [GetInfo]"
| "step_of (HederaCall (CallContractMethod c m ps g) t) = [Call]"
| "step_of (ShowInformationMessage m) = [Message]"
| "step_of (ShowErrorMessage m) = [ErrorNotice]"
| "step_of (ExecuteAddTransaction tx) = [Append]"

definition steps :: "ui_effect list \<Rightarrow> step list" where
  "steps t = concat (map step_of t)"

text \<open>
  The command \<^verbatim>\<open>hivemindTransactionCenter.addTransaction\<close> is registered by the constructor
  of the Transaction Center provider that the extension creates (the class it imports from
  \<^verbatim>\<open>components/transactionCenterProvider\<close>), with the handler
  \<^verbatim>\<open>(transaction) => { this.addTransaction(transaction); }\<close>: the record is put in front
  of the list, then the change event of the tree fires. \<open>run_commands\<close> runs the commands
  of a trace on the provider, in their order.
\<close>

fun run_command :: "transaction transaction_center \<Rightarrow> ui_effect \<Rightarrow> transaction transaction_center" where
  "run_command p (ExecuteAddTransaction tx) = addTransaction tx p"
| "run_command p ev = p"

definition run_commands ::
  "ui_effect list \<Rightarrow> transaction transaction_center \<Rightarrow> transaction transaction_center" where
  "run_commands t p = foldl run_command p t"

text \<open>The inputs the user is asked for, and a run of the loop in which a box is dismissed.\<close>

definition constructor_inputs :: "abi_item list \<Rightarrow> abi_input list" where
  "constructor_inputs abi =
     (case find (\<lambda>item. item_type item = ''constructor'') abi of
        None \<Rightarrow> []
      | Some c \<Rightarrow> (case inputs c of None \<Rightarrow> [] | Some ins \<Rightarrow> ins))"

definition method_inputs :: "abi_item \<Rightarrow> abi_input list" where
  "method_inputs method = (case inputs method of None \<Rightarrow> [] | Some ins \<Rightarrow> ins)"

fun dismissed :: "runtime \<Rightarrow> string \<Rightarrow> nat \<Rightarrow> abi_input list \<Rightarrow> bool" where
  "dismissed rt what i [] = False"
| "dismissed rt what i (input # rest) =
     (case showInputBox rt i (input_prompt what input) (input_type input @ '' value'') of
        None \<Rightarrow> True
      | Some param \<Rightarrow>
          (case convertParam rt param (input_type input) of
             Inl e \<Rightarrow> False
           | Inr v \<Rightarrow> dismissed rt what (Suc i) rest))"

text \<open>
  A workspace to run the utilities in: one Solidity file, an API that compiles it to a
  contract whose constructor takes one number, the wrapper of this repository connected to
  the accepting SDK, the same wrapper with contract information that has an ABI, and a
  wrapper whose \<^verbatim>\<open>registerContract\<close> gets its message through. The user answers every box,
  dismisses the second box, or dismisses the first.
\<close>

definition token_source :: string where
  "token_source = ''contract Token { constructor(uint256 supply) {} }''"

definition example_runtime :: "(nat \<Rightarrow> string option) \<Rightarrow> runtime" where
  "example_runtime answers =
     \<lparr>existsSync = (\<lambda>p. p = ''/work/Token.sol''),
      readFileSync = (\<lambda>p. if p = ''/work/Token.sol'' then Inr token_source
                           else Inl ''ENOENT: no such file or directory''),
      extname = (\<lambda>p. if endsWith p ''.sol'' then ''.sol'' else []),
      basename = (\<lambda>p ext. ''Token''),
      json_parse = (\<lambda>s. None),
      date_now = 1700000000000,
      showInputBox = (\<lambda>i p ph. answers i)\<rparr>"

definition token_compiled :: compilation_result where
  "token_compiled =
     \<lparr>cr_success = True, cr_error = None,
      cr_abi = [\<lparr>item_type = ''constructor'', item_name = None,
                 inputs = Some [\<lparr>input_name = ''supply'', input_type = ''uint256''\<rparr>],
                 stateMutability = Some ''nonpayable''\<rparr>],
      cr_bytecode = ''6080''\<rparr>"

definition example_api :: api_service where
  "example_api = \<lparr>compileContract = (\<lambda>code. Inr token_compiled)\<rparr>"

definition connected_service :: hedera_service where
  "connected_service =
     \<lparr>client = Some (Client Testnet (Some (''0.0.2'', ''key''))), accountId = Some ''0.0.2'',
      privateKey = Some ''key'', network = ''testnet'', connected = True\<rparr>"

definition example_hedera :: hedera_api where
  "example_hedera = HederaService_api sdk_accepting 1700000000000 connected_service"

definition transfer_method :: abi_item where
  "transfer_method =
     \<lparr>item_type = ''function'', item_name = Some ''transfer'',
      inputs = Some [\<lparr>input_name = ''to'', input_type = ''address''\<rparr>,
                     \<lparr>input_name = ''amount'', input_type = ''uint256''\<rparr>],
      stateMutability = Some ''nonpayable''\<rparr>"

definition hedera_with_abi :: hedera_api where
  "hedera_with_abi =
     example_hedera
       \<lparr>api_getContractInfo := (\<lambda>contractId.
          (Inr (Some \<lparr>ci_contractId = contractId, ci_name = ''Token'', ci_description = [],
                       ci_owner = Some ''0.0.2'', ci_deployedAt = 0, ci_verified = False,
                       ci_abi = Some [transfer_method]\<rparr>), []))\<rparr>"

definition hedera_with_registry :: hedera_api where
  "hedera_with_registry =
     example_hedera
       \<lparr>api_registerContract := (\<lambda>contractId metadata. (Inr ''0.0.2@1700000000.000000000'', []))\<rparr>"

definition answering_runtime :: runtime where
  "answering_runtime = example_runtime (\<lambda>i. Some ''1000'')"

definition dismissing_runtime :: runtime where
  "dismissing_runtime = example_runtime (\<lambda>i. if i = 0 then Some ''0.0.7'' else None)"

definition cancelling_runtime :: runtime where
  "cancelling_runtime = example_runtime (\<lambda>i. None)"


chapter \<open>Properties\<close>

section \<open>Transaction Center\<close>

text \<open>
  C8. For every transaction and every state of the transaction list, \<open>addTransaction\<close> puts
  the new transaction at index 0 of the list; the transactions that were there keep their
  relative order, each one index further, and nothing else is added or lost.
\<close>

theorem addTransaction_front:
  "transactions (addTransaction tx p) = tx # transactions p
   \<and> transactions (addTransaction tx p) ! 0 = tx
   \<and> length (transactions (addTransaction tx p)) = Suc (length (transactions p))
   \<and> (\<forall>i < length (transactions p).
         transactions (addTransaction tx p) ! Suc i = transactions p ! i)"
  by (simp add: addTransaction_def TransactionCenterProvider_refresh_def)

theorem addTransaction_front_witness:
  "transactions (addTransaction (7::nat) \<lparr>transactions = [5, 3], fired = 0\<rparr>) = [7, 5, 3]
   \<and> (1::nat) < length [5::nat, 3]
   \<and> transactions (addTransaction (7::nat) \<lparr>transactions = [5, 3], fired = 0\<rparr>) ! Suc 1 = 3"
  using addTransaction_front [of "7::nat" "\<lparr>transactions = [5, 3], fired = 0\<rparr>"]
  by simp

section \<open>Blockchain session wrapper\<close>

subsection \<open>What the guard and the error handler of an operation do\<close>

lemma fst_catch_log: "fst (catch_log l r) = fst r"
  by (cases r) (auto simp: catch_log_def split: sum.splits)

lemma snd_catch_log_prefix: "set (snd r) \<subseteq> set (snd (catch_log l r))"
  by (cases r) (auto simp: catch_log_def split: sum.splits)

lemma fst_execute_tx: "fst (execute_tx k c req) \<noteq> Inl not_connected"
  by (simp add: execute_tx_def not_connected_def split: sum.splits)

lemma fst_execute_query: "fst (execute_query k c req) \<noteq> Inl not_connected"
  by (simp add: execute_query_def not_connected_def split: sum.splits)

lemma traced_execute_tx: "SdkExecute c req \<in> set (snd (execute_tx k c req))"
  by (simp add: execute_tx_def split: sum.splits)

lemma traced_execute_query: "SdkExecute c req \<in> set (snd (execute_query k c req))"
  by (simp add: execute_query_def split: sum.splits)

lemma traced_catch_log: "e \<in> set (snd r) \<Longrightarrow> e \<in> set (snd (catch_log l r))"
  by (cases r) (auto simp: catch_log_def split: sum.splits)

lemma createTopic_proceeds:
  "client s = Some c \<Longrightarrow>
     fst (createTopic k memo s) \<noteq> Inl not_connected
     \<and> SdkExecute c (TopicCreateTransaction memo) \<in> set (snd (createTopic k memo s))"
  by (simp add: createTopic_def fst_catch_log fst_execute_tx traced_catch_log traced_execute_tx)

lemma submitMessage_proceeds:
  "client s = Some c \<Longrightarrow>
     fst (submitMessage k topicId message s) \<noteq> Inl not_connected
     \<and> SdkExecute c (TopicMessageSubmitTransaction topicId message)
          \<in> set (snd (submitMessage k topicId message s))"
  by (simp add: submitMessage_def fst_catch_log fst_execute_tx traced_catch_log traced_execute_tx)

lemma callContractMethod_proceeds:
  "client s = Some c \<Longrightarrow>
     fst (callContractMethod k contractId method params gas s) \<noteq> Inl not_connected
     \<and> SdkExecute c (ContractCallQuery contractId gas method params)
          \<in> set (snd (callContractMethod k contractId method params gas s))"
  by (simp add: callContractMethod_def fst_catch_log fst_execute_query traced_catch_log
        traced_execute_query)

lemma deployContract_proceeds:
  "client s = Some c \<Longrightarrow>
     fst (deployContract k bytecode constructorParams s) \<noteq> Inl not_connected
     \<and> SdkExecute c (FileCreateTransaction bytecode)
          \<in> set (snd (deployContract k bytecode constructorParams s))"
  by (auto simp: deployContract_def catch_log_def execute_tx_def not_connected_def
        split: prod.splits sum.splits)

lemma registerContract_proceeds:
  "client s = Some c \<Longrightarrow>
     fst (registerContract k now contractId metadata s) \<noteq> Inl not_connected
     \<and> SdkExecute c (TopicMessageSubmitTransaction ''0.0.registry''
            (registrationData contractId metadata now (accountId s)))
          \<in> set (snd (registerContract k now contractId metadata s))"
  by (simp add: registerContract_def fst_catch_log traced_catch_log submitMessage_proceeds)

lemma placeholders_proceed:
  "client s = Some c \<Longrightarrow>
     fst (getContractInfo now contractId s) \<noteq> Inl not_connected
     \<and> fst (getDeployedContracts now s) \<noteq> Inl not_connected
     \<and> fst (useAgent now agentId prompt s) \<noteq> Inl not_connected
     \<and> fst (getAgents s) \<noteq> Inl not_connected"
  by (simp add: getContractInfo_def getDeployedContracts_def useAgent_def getAgents_def)

subsection \<open>Connecting with an unknown network name\<close>

text \<open>
  C1. Every call of \<open>connect\<close> with a network other than \<^verbatim>\<open>testnet\<close> and \<^verbatim>\<open>mainnet\<close> throws
  (\<^verbatim>\<open>Invalid network: ...\<close>), logs the error and does nothing but clear the \<open>connected\<close> flag.
  Called in the Disconnected state (no client, flag clear) it leaves the whole state as it
  was: the client is still null, account id, key and network are unchanged and
  \<open>isConnected\<close> is still false.
\<close>

theorem connect_invalid_network:
  "net \<noteq> ''testnet'' \<Longrightarrow> net \<noteq> ''mainnet'' \<Longrightarrow>
     connect k net acc key s =
       (Inl (Error (''Invalid network: '' @ net)), s\<lparr>connected := False\<rparr>,
        [ConsoleError ''Failed to connect to Hedera:'' (Error (''Invalid network: '' @ net))])
     \<and> (client s = None \<and> \<not> connected s \<longrightarrow>
          fst (snd (connect k net acc key s)) = s
          \<and> client (fst (snd (connect k net acc key s))) = None
          \<and> \<not> isConnected (fst (snd (connect k net acc key s))))"
  by (simp add: connect_def isConnected_def)

theorem connect_invalid_network_witness:
  "''devnet'' \<noteq> ''testnet'' \<and> ''devnet'' \<noteq> ''mainnet''
   \<and> client initial_service = None \<and> \<not> connected initial_service
   \<and> fst (connect sdk_accepting ''devnet'' ''0.0.2'' ''key'' initial_service)
       = Inl (Error ''Invalid network: devnet'')
   \<and> fst (snd (connect sdk_accepting ''devnet'' ''0.0.2'' ''key'' initial_service)) = initial_service"
  using connect_invalid_network [of "''devnet''" sdk_accepting "''0.0.2''" "''key''" initial_service]
  by (simp add: initial_service_def)

subsection \<open>Operations without a client\<close>

text \<open>
  C2, as the code has it. \<open>disconnect\<close> leaves the service without client and with the flag
  clear. While the client is null, each of the ten operations throws "Not connected to
  Hedera" and makes no call at all, whatever its arguments. The client stays null (and the
  flag clear) through a \<open>connect\<close> that is refused for its network name and through
  \<open>updateConfig\<close>; the operations themselves do not change the state.
\<close>

theorem operations_without_client:
  "client (fst (disconnect s0)) = None
   \<and> \<not> connected (fst (disconnect s0))
   \<and> (client s = None \<longrightarrow>
        createTopic k memo s = (Inl not_connected, [])
      \<and> submitMessage k topicId message s = (Inl not_connected, [])
      \<and> callContractMethod k contractId method params gas s = (Inl not_connected, [])
      \<and> getAccountBalance k s = (Inl not_connected, [])
      \<and> deployContract k bytecode constructorParams s = (Inl not_connected, [])
      \<and> registerContract k now contractId metadata s = (Inl not_connected, [])
      \<and> getContractInfo now contractId s = (Inl not_connected, [])
      \<and> getDeployedContracts now s = (Inl not_connected, [])
      \<and> useAgent now agentId prompt s = (Inl not_connected, [])
      \<and> getAgents s = (Inl not_connected, []))
   \<and> (client s = None \<and> \<not> connected s \<and> net \<noteq> ''testnet'' \<and> net \<noteq> ''mainnet'' \<longrightarrow>
        client (fst (snd (connect k net acc key s))) = None
      \<and> \<not> connected (fst (snd (connect k net acc key s))))
   \<and> (client s = None \<and> \<not> connected s \<longrightarrow>
        client (fst (updateConfig k acc key net s)) = None
      \<and> \<not> connected (fst (updateConfig k acc key net s)))"
  by (simp add: disconnect_def createTopic_def submitMessage_def callContractMethod_def
        getAccountBalance_def deployContract_def registerContract_def getContractInfo_def
        getDeployedContracts_def useAgent_def getAgents_def connect_def updateConfig_def
        split: option.splits)

theorem operations_without_client_witness:
  "client (fst (disconnect (fst (snd (connect sdk_accepting ''testnet'' ''0.0.2'' ''key''
                                        initial_service))))) = None
   \<and> createTopic sdk_accepting ''memo''
        (fst (disconnect (fst (snd (connect sdk_accepting ''testnet'' ''0.0.2'' ''key''
                                      initial_service)))))
       = (Inl not_connected, [])
   \<and> \<not> connected (fst (disconnect initial_service))
   \<and> ''devnet'' \<noteq> ''testnet'' \<and> ''devnet'' \<noteq> ''mainnet''
   \<and> client (fst (snd (connect sdk_accepting ''devnet'' ''0.0.2'' ''key''
                         (fst (disconnect initial_service))))) = None
   \<and> client (fst (updateConfig sdk_accepting ''0.0.2'' ''key'' ''testnet''
                    (fst (disconnect initial_service)))) = None"
  using operations_without_client
          [where ?s0.0 = "fst (snd (connect sdk_accepting ''testnet'' ''0.0.2'' ''key''
                                     initial_service))"
             and s = "fst (disconnect (fst (snd (connect sdk_accepting ''testnet'' ''0.0.2''
                                                    ''key'' initial_service))))"
             and k = sdk_accepting and memo = "''memo''"]
        operations_without_client
          [where ?s0.0 = initial_service and s = "fst (disconnect initial_service)"
             and k = sdk_accepting and net = "''devnet''" and acc = "''0.0.2''"
             and key = "''key''"]
        operations_without_client
          [where ?s0.0 = initial_service and s = "fst (disconnect initial_service)"
             and k = sdk_accepting and net = "''testnet''" and acc = "''0.0.2''"
             and key = "''key''"]
  by simp

text \<open>
  A \<open>connect\<close> that fails inside the SDK between \<open>disconnect\<close> and the operation is no
  successful connect, yet it has assigned a fresh client before \<^verbatim>\<open>setOperator\<close> threw: the
  operation passes its test, calls the SDK and fails there with the SDK's error, which it
  logs.
\<close>

theorem operations_after_rejected_connect_counterexample:
  "fst (connect sdk_rejecting ''testnet'' ''0.0.2'' ''bad key'' (fst (disconnect initial_service)))
     = Inl (Sdk (SdkFailure ''BadKeyError'' ''invalid private key''))
   \<and> createTopic sdk_rejecting ''memo''
        (fst (snd (connect sdk_rejecting ''testnet'' ''0.0.2'' ''bad key''
                     (fst (disconnect initial_service)))))
     = (Inl (Sdk (SdkFailure ''Error'' ''client must have an operator'')),
        [SdkExecute (Client Testnet None) (TopicCreateTransaction ''memo''),
         ConsoleError ''Failed to create topic:''
           (Sdk (SdkFailure ''Error'' ''client must have an operator''))])
   \<and> createTopic sdk_rejecting ''memo''
        (fst (snd (connect sdk_rejecting ''testnet'' ''0.0.2'' ''bad key''
                     (fst (disconnect initial_service)))))
     \<noteq> (Inl not_connected, [])"
  by (simp add: connect_def disconnect_def initial_service_def sdk_rejecting_def createTopic_def
        catch_log_def execute_tx_def not_connected_def)

subsection \<open>The client left behind by a refused reconnect\<close>

text \<open>
  C10. After a successful \<open>connect\<close>, a \<open>connect\<close> with an invalid network name throws; the
  client of the first call is neither closed nor cleared. \<open>isConnected\<close> is then false, yet
  the operations, which test the client only, do not throw "Not connected to Hedera": those
  that talk to the SDK execute their request on the old client.
\<close>

theorem stale_handle:
  assumes ok: "net = ''testnet'' \<or> net = ''mainnet''"
    and op: "setOperator k acc key = None"
    and bad: "bad \<noteq> ''testnet''" "bad \<noteq> ''mainnet''"
    and s1: "s1 = fst (snd (connect k net acc key s0))"
    and s2: "s2 = fst (snd (connect k bad acc' key' s1))"
  shows "fst (connect k net acc key s0) = Inr True
    \<and> isConnected s1
    \<and> fst (connect k bad acc' key' s1) = Inl (Error (''Invalid network: '' @ bad))
    \<and> client s2 = client s1
    \<and> (\<exists>c. client s2 = Some c
          \<and> ClientClose c \<notin> set (snd (snd (connect k bad acc' key' s1)))
          \<and> fst (createTopic k memo s2) \<noteq> Inl not_connected
          \<and> SdkExecute c (TopicCreateTransaction memo) \<in> set (snd (createTopic k memo s2))
          \<and> fst (submitMessage k topicId message s2) \<noteq> Inl not_connected
          \<and> SdkExecute c (TopicMessageSubmitTransaction topicId message)
               \<in> set (snd (submitMessage k topicId message s2))
          \<and> fst (callContractMethod k contractId method params gas s2) \<noteq> Inl not_connected
          \<and> SdkExecute c (ContractCallQuery contractId gas method params)
               \<in> set (snd (callContractMethod k contractId method params gas s2))
          \<and> fst (deployContract k bytecode constructorParams s2) \<noteq> Inl not_connected
          \<and> SdkExecute c (FileCreateTransaction bytecode)
               \<in> set (snd (deployContract k bytecode constructorParams s2))
          \<and> fst (registerContract k now contractId metadata s2) \<noteq> Inl not_connected
          \<and> fst (getContractInfo now contractId s2) \<noteq> Inl not_connected
          \<and> fst (getDeployedContracts now s2) \<noteq> Inl not_connected
          \<and> fst (useAgent now agentId prompt s2) \<noteq> Inl not_connected
          \<and> fst (getAgents s2) \<noteq> Inl not_connected)
    \<and> \<not> isConnected s2"
proof -
  obtain l where c1: "client s1 = Some (Client l (Some (acc, key)))" and con1: "connected s1"
    and r1: "fst (connect k net acc key s0) = Inr True"
    using ok op s1 by (auto simp: connect_def)
  have r2: "connect k bad acc' key' s1 =
      (Inl (Error (''Invalid network: '' @ bad)), s1\<lparr>connected := False\<rparr>,
       [ConsoleError ''Failed to connect to Hedera:'' (Error (''Invalid network: '' @ bad))])"
    using bad by (simp add: connect_def)
  have s2': "s2 = s1\<lparr>connected := False\<rparr>" using s2 r2 by simp
  let ?c = "Client l (Some (acc, key))"
  have c2: "client s2 = Some ?c" using s2' c1 by simp
  have first: "fst (connect k net acc key s0) = Inr True \<and> isConnected s1
      \<and> fst (connect k bad acc' key' s1) = Inl (Error (''Invalid network: '' @ bad))
      \<and> client s2 = client s1 \<and> \<not> isConnected s2
      \<and> ClientClose ?c \<notin> set (snd (snd (connect k bad acc' key' s1)))"
    using r1 c1 con1 r2 s2' by (simp add: isConnected_def)
  note ops = createTopic_proceeds [OF c2] submitMessage_proceeds [OF c2]
      callContractMethod_proceeds [OF c2] deployContract_proceeds [OF c2]
      registerContract_proceeds [OF c2] placeholders_proceed [OF c2]
  show ?thesis
    by (intro conjI exI [of _ ?c]) (simp_all add: first c1 ops)
qed

theorem stale_handle_witness:
  "(''testnet'' = ''testnet'' \<or> ''testnet'' = ''mainnet'')
   \<and> setOperator sdk_accepting ''0.0.2'' ''key'' = None
   \<and> ''nonet'' \<noteq> ''testnet'' \<and> ''nonet'' \<noteq> ''mainnet''
   \<and> fst (connect sdk_accepting ''testnet'' ''0.0.2'' ''key'' initial_service) = Inr True
   \<and> fst (connect sdk_accepting ''nonet'' ''0.0.2'' ''key''
            (fst (snd (connect sdk_accepting ''testnet'' ''0.0.2'' ''key'' initial_service))))
       = Inl (Error (''Invalid network: '' @ ''nonet''))
   \<and> \<not> isConnected (fst (snd (connect sdk_accepting ''nonet'' ''0.0.2'' ''key''
            (fst (snd (connect sdk_accepting ''testnet'' ''0.0.2'' ''key'' initial_service))))))"
proof -
  have h1: "''testnet'' = ''testnet'' \<or> ''testnet'' = ''mainnet''" by simp
  have h2: "setOperator sdk_accepting ''0.0.2'' ''key'' = None"
    by (simp add: sdk_accepting_def)
  have h3: "''nonet'' \<noteq> ''testnet''" and h4: "''nonet'' \<noteq> ''mainnet''" by simp_all
  from stale_handle [OF h1 h2 h3 h4 refl refl, of initial_service "''0.0.2''" "''key''"]
  show ?thesis using h1 h2 h3 h4 by blast
qed


section \<open>Audit Dashboard provider\<close>


lemma lower_severities:
  "toLowerCase ''Critical'' = ''critical''"
  "toLowerCase ''High'' = ''high''"
  "toLowerCase ''Medium'' = ''medium''"
  "toLowerCase ''Low'' = ''low''"
  "toLowerCase ''Informational'' = ''informational''"
  by code_simp+

lemma show_nat_1: "show_nat (Suc 0) = ''1''"
  by code_simp

lemma root_items:
  "vs \<noteq> [] \<Longrightarrow>
   getChildren vs None =
     map (\<lambda>sev. AuditTreeItem (group_label vs sev)
             (show_nat (severity_count vs sev) @ '' '' @ toLowerCase sev @ '' severity issues'')
             Collapsed None (Some (''severity-'' @ toLowerCase sev)) (Some (getSeverityIcon sev)))
       (filter (\<lambda>sev. 0 < severity_count vs sev) severities)"
  unfolding getChildren_def filter_Boolean_def severity_count_def group_label_def Let_def
  by (simp add: filter_map comp_def severities_def)

text \<open>
  C5. For every vulnerability list, the root level of \<open>getChildren\<close> has exactly one group
  for each of Critical, High, Medium, Low, Informational that has at least one vulnerability,
  in this order, labelled "Severity (count)", and no group for a severity without
  vulnerability (an empty list shows the one placeholder, which is no group). A list of one
  High and one Medium vulnerability shows exactly "High (1)" and "Medium (1)".
\<close>

theorem root_groups:
  "map label (getChildren vs None) =
     (if vs = [] then [''No Vulnerabilities Found'']
      else map (group_label vs) (filter (\<lambda>sev. 0 < severity_count vs sev) severities))
   \<and> map contextValue (getChildren vs None) =
     (if vs = [] then [None]
      else map (\<lambda>sev. Some (''severity-'' @ toLowerCase sev))
             (filter (\<lambda>sev. 0 < severity_count vs sev) severities))
   \<and> (toLowerCase (v_severity v1) = ''high'' \<and> toLowerCase (v_severity v2) = ''medium'' \<longrightarrow>
        map label (getChildren [v1, v2] None) = [''High (1)'', ''Medium (1)''])"
proof (intro conjI impI)
  show "map label (getChildren vs None) =
     (if vs = [] then [''No Vulnerabilities Found'']
      else map (group_label vs) (filter (\<lambda>sev. 0 < severity_count vs sev) severities))"
  proof (cases "vs = []")
    case True
    then show ?thesis by (simp add: getChildren_def AuditTreeItem_def)
  next
    case False
    then show ?thesis by (simp add: root_items AuditTreeItem_def comp_def)
  qed
  show "map contextValue (getChildren vs None) =
     (if vs = [] then [None]
      else map (\<lambda>sev. Some (''severity-'' @ toLowerCase sev))
             (filter (\<lambda>sev. 0 < severity_count vs sev) severities))"
  proof (cases "vs = []")
    case True
    then show ?thesis by (simp add: getChildren_def AuditTreeItem_def)
  next
    case False
    then show ?thesis by (simp add: root_items AuditTreeItem_def comp_def)
  qed
next
  assume h: "toLowerCase (v_severity v1) = ''high'' \<and> toLowerCase (v_severity v2) = ''medium''"
  have "getChildren [v1, v2] None =
     map (\<lambda>sev. AuditTreeItem (group_label [v1, v2] sev)
             (show_nat (severity_count [v1, v2] sev) @ '' '' @ toLowerCase sev @ '' severity issues'')
             Collapsed None (Some (''severity-'' @ toLowerCase sev)) (Some (getSeverityIcon sev)))
       (filter (\<lambda>sev. 0 < severity_count [v1, v2] sev) severities)"
    by (rule root_items) simp
  then show "map label (getChildren [v1, v2] None) = [''High (1)'', ''Medium (1)'']"
    using h
    by (simp add: severities_def severity_count_def group_label_def lower_severities
          AuditTreeItem_def show_nat_1)
qed

theorem root_groups_witness:
  "toLowerCase (v_severity (hd (mockVulnerabilities ''a.sol''))) = ''high''
   \<and> toLowerCase (v_severity (hd (tl (mockVulnerabilities ''a.sol'')))) = ''medium''
   \<and> map label (getChildren [hd (mockVulnerabilities ''a.sol''),
                              hd (tl (mockVulnerabilities ''a.sol''))] None)
       = [''High (1)'', ''Medium (1)'']"
proof -
  have h: "toLowerCase (v_severity (hd (mockVulnerabilities ''a.sol''))) = ''high''
    \<and> toLowerCase (v_severity (hd (tl (mockVulnerabilities ''a.sol'')))) = ''medium''"
    by (simp add: mockVulnerabilities_def lower_severities)
  from root_groups [of _ "hd (mockVulnerabilities ''a.sol'')"
      "hd (tl (mockVulnerabilities ''a.sol''))"] h
  show ?thesis by blast
qed


section \<open>HTTP client wrapper\<close>

text \<open>
  C7, as the code has it. The value a failed request is rejected with is the \<open>detail\<close> field
  of the response body when that field is truthy, otherwise the error's message when it is
  not empty, otherwise "Unknown error". It is a single string whenever \<open>detail\<close> is a
  string or is not truthy; a transport error has no response, so no \<open>detail\<close>.
\<close>

theorem rejection_value:
  "(response_detail err = JStr d \<and> d \<noteq> [] \<longrightarrow> response_error_interceptor err = JStr d)
   \<and> (truthy (response_detail err) \<longrightarrow> response_error_interceptor err = response_detail err)
   \<and> (\<not> truthy (response_detail err) \<and> err_message err = Some m \<and> m \<noteq> [] \<longrightarrow>
        response_error_interceptor err = JStr m)
   \<and> (\<not> truthy (response_detail err) \<and> (err_message err = None \<or> err_message err = Some []) \<longrightarrow>
        response_error_interceptor err = JStr ''Unknown error'')
   \<and> (err_response err = None \<longrightarrow> \<not> truthy (response_detail err))
   \<and> (isString (response_detail err) \<or> \<not> truthy (response_detail err) \<longrightarrow>
        isString (response_error_interceptor err))"
  by (cases "response_detail err")
     (auto simp: response_error_interceptor_def or_default_def response_detail_def)

theorem rejection_value_witness:
  "response_error_interceptor
     \<lparr>err_response = Some \<lparr>resp_data = JObj [(''detail'', JStr ''Compilation failed'')]\<rparr>,
      err_message = Some ''Request failed with status code 400''\<rparr> = JStr ''Compilation failed''
   \<and> response_error_interceptor \<lparr>err_response = None, err_message = Some ''timeout of 30000ms exceeded''\<rparr>
       = JStr ''timeout of 30000ms exceeded''
   \<and> response_error_interceptor \<lparr>err_response = None, err_message = None\<rparr> = JStr ''Unknown error''"
  using rejection_value [of "\<lparr>err_response = Some \<lparr>resp_data = JObj [(''detail'', JStr ''Compilation failed'')]\<rparr>,
      err_message = Some ''Request failed with status code 400''\<rparr>" "''Compilation failed''"]
    rejection_value [of "\<lparr>err_response = None, err_message = Some ''timeout of 30000ms exceeded''\<rparr>" _
       "''timeout of 30000ms exceeded''"]
    rejection_value [of "\<lparr>err_response = None, err_message = None\<rparr>"]
  by (simp add: response_detail_def)

text \<open>
  A \<open>detail\<close> that is a list is passed on as it is, so the rejection value is not a string;
  a \<open>detail\<close> that is present but empty is skipped for the message.
\<close>

theorem rejection_not_a_string_counterexample:
  "response_error_interceptor validation_error =
     JArr [JObj [(''loc'', JArr [JStr ''body'', JStr ''code'']), (''msg'', JStr ''field required'')]]
   \<and> \<not> isString (response_error_interceptor validation_error)
   \<and> response_error_interceptor
        \<lparr>err_response = Some \<lparr>resp_data = JObj [(''detail'', JStr [])]\<rparr>,
         err_message = Some ''Request failed with status code 400''\<rparr>
       = JStr ''Request failed with status code 400''"
  by (simp add: response_error_interceptor_def response_detail_def validation_error_def
        or_default_def)


section \<open>Solidity audit provider\<close>

subsection \<open>The matcher finds exactly the locations with a line reference\<close>

lemma whitespace_not_s: "isWhiteSpace c \<Longrightarrow> ascii_lower c \<noteq> CHR ''s''"
  by (auto simp: isWhiteSpace_def ascii_lower_def)

lemma digit_not_whitespace: "isDigit c \<Longrightarrow> \<not> isWhiteSpace c"
  by (auto simp: isDigit_def isWhiteSpace_def)

lemma match_here_complete:
  assumes w: "map ascii_lower w = ''line''"
    and s: "s = [] \<or> (\<exists>c. s = [c] \<and> ascii_lower c = CHR ''s'')"
    and ws: "ws \<noteq> []" "\<forall>c \<in> set ws. isWhiteSpace c"
    and ds: "ds \<noteq> []" "\<forall>c \<in> set ds. isDigit c"
  shows "match_line_here (w @ s @ ws @ ds @ rest) \<noteq> None"
proof -
  from w have "length (map ascii_lower w) = 4" by simp
  then have lw: "length w = 4" by simp
  obtain x xs where wsx: "ws = x # xs" using ws(1) by (cases ws) auto
  obtain d dt where dsx: "ds = d # dt" using ds(1) by (cases ds) auto
  have xw: "isWhiteSpace x" using ws(2) wsx by simp
  have dd: "isDigit d" using ds(2) dsx by simp
  have t4: "take 4 (w @ s @ ws @ ds @ rest) = w" using lw by simp
  have d4: "drop 4 (w @ s @ ws @ ds @ rest) = s @ ws @ ds @ rest" using lw by simp
  have r2: "(case s @ ws @ ds @ rest of [] \<Rightarrow> s @ ws @ ds @ rest
             | c # cs \<Rightarrow> if ascii_lower c = CHR ''s'' then cs else s @ ws @ ds @ rest)
            = ws @ ds @ rest"
    using s wsx whitespace_not_s [OF xw] by auto
  have tw: "takeWhile isWhiteSpace (ws @ ds @ rest) = ws"
    using ws(2) dsx digit_not_whitespace [OF dd] by (simp add: takeWhile_append2)
  have dw: "dropWhile isWhiteSpace (ws @ ds @ rest) = ds @ rest"
    using ws(2) dsx digit_not_whitespace [OF dd] by (simp add: dropWhile_append2)
  have td: "takeWhile isDigit (ds @ rest) \<noteq> []" using dsx dd by simp
  show ?thesis
    unfolding match_line_here_def t4 d4 Let_def r2 tw dw
    using w ws(1) td by (simp split: list.splits)
qed

lemma match_here_sound:
  assumes "match_line_here t \<noteq> None"
  shows "\<exists>u rest. t = u @ rest \<and> line_reference u"
proof -
  let ?w = "take 4 t"
  let ?r1 = "drop 4 t"
  let ?r2 = "(case ?r1 of [] \<Rightarrow> ?r1 | c # cs \<Rightarrow> if ascii_lower c = CHR ''s'' then cs else ?r1)"
  let ?s = "(case ?r1 of [] \<Rightarrow> [] | c # cs \<Rightarrow> if ascii_lower c = CHR ''s'' then [c] else [])"
  let ?ws = "takeWhile isWhiteSpace ?r2"
  let ?r3 = "dropWhile isWhiteSpace ?r2"
  let ?ds = "takeWhile isDigit ?r3"
  from assms have w: "map ascii_lower ?w = ''line''" and ws: "?ws \<noteq> []" and ds: "?ds \<noteq> []"
    by (auto simp: match_line_here_def Let_def split: if_splits)
  have r1: "?r1 = ?s @ ?r2" by (auto split: list.splits)
  have "t = ?w @ ?r1" by simp
  also have "?r1 = ?s @ ?r2" by (rule r1)
  also have "?r2 = ?ws @ ?r3" by simp
  also have "?r3 = ?ds @ dropWhile isDigit ?r3" by simp
  finally have "t = ?w @ ?s @ ?ws @ ?ds @ dropWhile isDigit ?r3" .
  moreover have "line_reference (?w @ ?s @ ?ws @ ?ds)"
    unfolding line_reference_def
    apply (rule exI [of _ ?w], rule exI [of _ ?s], rule exI [of _ ?ws], rule exI [of _ ?ds])
    using w ws ds by (auto split: list.splits dest: set_takeWhileD)
  ultimately have "t = (?w @ ?s @ ?ws @ ?ds) @ dropWhile isDigit ?r3
      \<and> line_reference (?w @ ?s @ ?ws @ ?ds)"
    by simp
  then show ?thesis by blast
qed

lemma match_line_sound: "match_line l \<noteq> None \<Longrightarrow> location_matches l"
proof (induction l)
  case Nil
  then show ?case by simp
next
  case (Cons c cs)
  show ?case
  proof (cases "match_line_here (c # cs)")
    case None
    with Cons.prems have "match_line cs \<noteq> None" by simp
    then have "location_matches cs" by (rule Cons.IH)
    then obtain pre t rest where "cs = pre @ t @ rest" "line_reference t"
      unfolding location_matches_def by blast
    then have "c # cs = (c # pre) @ t @ rest \<and> line_reference t" by simp
    then show ?thesis unfolding location_matches_def by blast
  next
    case (Some m)
    then have "match_line_here (c # cs) \<noteq> None" by simp
    from match_here_sound [OF this]
    obtain u rest where "c # cs = u @ rest" "line_reference u" by blast
    then have "c # cs = [] @ u @ rest \<and> line_reference u" by simp
    then show ?thesis unfolding location_matches_def by blast
  qed
qed

lemma match_here_Nil: "match_line_here [] = None"
  by (simp add: match_line_here_def)

lemma match_line_suffix:
  "match_line_here u \<noteq> None \<Longrightarrow> match_line (pre @ u) \<noteq> None"
proof (induction pre)
  case Nil
  then show ?case by (cases u) (auto simp: match_here_Nil split: option.splits)
next
  case (Cons a pre)
  then show ?case by (auto split: option.splits)
qed

lemma match_line_iff: "match_line l \<noteq> None \<longleftrightarrow> location_matches l"
proof
  assume "match_line l \<noteq> None"
  then show "location_matches l" by (rule match_line_sound)
next
  assume "location_matches l"
  then obtain pre t rest where l: "l = pre @ t @ rest" and t: "line_reference t"
    unfolding location_matches_def by blast
  from t obtain w s ws ds where parts: "t = w @ s @ ws @ ds" "map ascii_lower w = ''line''"
      "s = [] \<or> (\<exists>c. s = [c] \<and> ascii_lower c = CHR ''s'')"
      "ws \<noteq> []" "\<forall>c \<in> set ws. isWhiteSpace c" "ds \<noteq> []" "\<forall>c \<in> set ds. isDigit c"
    unfolding line_reference_def by (elim exE conjE) (rule that)
  have "match_line_here (w @ s @ ws @ ds @ rest) \<noteq> None"
    by (rule match_here_complete [OF parts(2-7)])
  then have "match_line_here (t @ rest) \<noteq> None"
    using parts(1) by simp
  then show "match_line l \<noteq> None"
    unfolding l by (rule match_line_suffix)
qed


lemma unparsable_iff: "unparsable vuln \<longleftrightarrow> lineMatch vuln = None"
proof (cases "sv_location vuln")
  case None
  then show ?thesis by (simp add: unparsable_def lineMatch_def)
next
  case (Some l)
  have "(\<not> location_matches l) = (match_line l = None)"
    using match_line_iff [of l] by blast
  with Some show ?thesis by (simp add: unparsable_def lineMatch_def)
qed

subsection \<open>Locations that cannot be parsed\<close>

lemma forEach_skips:
  "lineMatch vuln = None \<Longrightarrow>
     forEach_vulnerability document (before @ vuln # after) ds =
     forEach_vulnerability document (before @ after) ds"
  by (induction before arbitrary: ds) (auto simp: diagnostic_for_def split: sum.splits option.splits)

lemma forEach_none:
  "\<forall>v \<in> set vs. lineMatch v = None \<Longrightarrow> forEach_vulnerability document vs ds = Inr ds"
  by (induction vs arbitrary: ds) (auto simp: diagnostic_for_def)

text \<open>
  C6. For every vulnerability whose location is absent or does not match the pattern
  (\<^verbatim>\<open>line[s]?\<close>, white space, a number, in any case, anywhere in the text), the provider
  produces no diagnostic and raises nothing: the loop goes on as if the vulnerability were
  not in the list, and a list of such vulnerabilities leaves the document with an empty set
  of diagnostics.
\<close>

theorem unparsable_location_skipped:
  "(unparsable vuln \<longrightarrow>
      diagnostic_for document vuln = Inr None
    \<and> forEach_vulnerability document (before @ vuln # after) ds =
        forEach_vulnerability document (before @ after) ds)
   \<and> (vs \<noteq> [] \<and> (\<forall>v \<in> set vs. unparsable v) \<longrightarrow>
        updateDiagnostics document (Some \<lparr>static_analysis = Some vs, ai_analysis = a\<rparr>) coll
          = (None, coll(doc_uri document \<mapsto> [])))"
proof (intro conjI impI)
  assume "unparsable vuln"
  then have m: "lineMatch vuln = None" by (simp add: unparsable_iff)
  then show "diagnostic_for document vuln = Inr None" by (simp add: diagnostic_for_def)
  from m show "forEach_vulnerability document (before @ vuln # after) ds =
        forEach_vulnerability document (before @ after) ds"
    by (rule forEach_skips)
next
  assume h: "vs \<noteq> [] \<and> (\<forall>v \<in> set vs. unparsable v)"
  then have "\<forall>v \<in> set vs. lineMatch v = None" by (simp add: unparsable_iff)
  then have "forEach_vulnerability document vs [] = Inr []" by (rule forEach_none)
  with h show "updateDiagnostics document (Some \<lparr>static_analysis = Some vs, ai_analysis = a\<rparr>) coll
          = (None, coll(doc_uri document \<mapsto> []))"
    by (simp add: updateDiagnostics_def)
qed

theorem unparsable_location_skipped_witness:
  "unparsable (vulnerability_at (Some ''in function transfer, line5''))
   \<and> unparsable (vulnerability_at None)
   \<and> diagnostic_for token_document (vulnerability_at (Some ''in function transfer, line5''))
       = Inr None
   \<and> forEach_vulnerability token_document
        [vulnerability_at (Some ''line 2''), vulnerability_at None] []
       = forEach_vulnerability token_document [vulnerability_at (Some ''line 2'')] []
   \<and> updateDiagnostics token_document
        (Some \<lparr>static_analysis = Some [vulnerability_at None,
                   vulnerability_at (Some ''in function transfer, line5'')],
               ai_analysis = None\<rparr>) Map.empty
       = (None, [doc_uri token_document \<mapsto> []])"
proof -
  have "match_line ''in function transfer, line5'' = None" by code_simp
  then have u1: "unparsable (vulnerability_at (Some ''in function transfer, line5''))"
    by (simp add: unparsable_iff lineMatch_def vulnerability_at_def)
  have u2: "unparsable (vulnerability_at None)"
    by (simp add: unparsable_def vulnerability_at_def)
  from u1 u2
    unparsable_location_skipped [of "vulnerability_at (Some ''in function transfer, line5'')"
      token_document]
    unparsable_location_skipped [of "vulnerability_at None" token_document
      "[vulnerability_at (Some ''line 2'')]" "[]" "[]"
      "[vulnerability_at None, vulnerability_at (Some ''in function transfer, line5'')]"
      None Map.empty]
  show ?thesis by simp
qed

text \<open>A location that does match gives its diagnostic.\<close>

lemma parsable_location_example:
  "forEach_vulnerability token_document [vulnerability_at (Some ''Lines 2-3'')] [] =
     Inr [\<lparr>diag_range = \<lparr>range_start = \<lparr>pos_line = 1, pos_character = 0\<rparr>,
                          range_end = \<lparr>pos_line = 2, pos_character = 1\<rparr>\<rparr>,
            diag_message = ''State is written after an external call'',
            diag_severity = DiagError, diag_source = ''HiveMind Audit'',
            diag_code = ''Reentrancy'',
            diag_relatedInformation =
              [(''file:///Token.sol'',
                \<lparr>range_start = \<lparr>pos_line = 1, pos_character = 0\<rparr>,
                 range_end = \<lparr>pos_line = 2, pos_character = 1\<rparr>\<rparr>, ''Reentrancy'')]\<rparr>]"
  by code_simp


section \<open>Webview panels\<close>

subsection \<open>What the two classes keep track of\<close>

lemma tracked_initial: "tracked_panels initial_window"
  by (simp add: tracked_panels_def initial_window_def agent_hub_panels_def
        dashboard_pages_def option_list_def)

lemma filter_without:
  "p \<notin> set (map fst (filter Q ps)) \<Longrightarrow>
     filter Q (filter (\<lambda>(i, c). i \<noteq> p) ps) = filter Q ps"
proof -
  assume h: "p \<notin> set (map fst (filter Q ps))"
  have "filter Q (filter (\<lambda>(i, c). i \<noteq> p) ps) = filter (\<lambda>x. (case x of (i, c) \<Rightarrow> i \<noteq> p) \<and> Q x) ps"
    by (rule filter_filter)
  also have "\<dots> = filter Q ps"
  proof (rule filter_cong [OF refl])
    fix x assume x: "x \<in> set ps"
    show "((case x of (i, c) \<Rightarrow> i \<noteq> p) \<and> Q x) = Q x"
    proof (cases "Q x")
      case True
      with x have "fst x \<in> set (map fst (filter Q ps))" by auto
      with h have "fst x \<noteq> p" by auto
      with True show ?thesis by (cases x) simp
    next
      case False
      then show ?thesis by simp
    qed
  qed
  finally show ?thesis .
qed

lemma filter_only:
  "map fst (filter Q ps) = [p] \<Longrightarrow> filter Q (filter (\<lambda>(i, c). i \<noteq> p) ps) = []"
proof -
  assume h: "map fst (filter Q ps) = [p]"
  have "\<And>x. x \<in> set ps \<Longrightarrow> Q x \<Longrightarrow> fst x = p"
  proof -
    fix x assume "x \<in> set ps" "Q x"
    then have "fst x \<in> set (map fst (filter Q ps))" by auto
    with h show "fst x = p" by simp
  qed
  then show ?thesis by (auto simp: filter_empty_conv)
qed

lemma map_fst_set_html: "map fst (set_html p h ps) = map fst ps"
  by (induction ps) (auto simp: set_html_def)

lemma map_of_set_html:
  "map_of (set_html p h ps) q =
     (if q = p \<and> p \<in> set (map fst ps) then Some h else map_of ps q)"
  by (induction ps) (force simp: set_html_def)+

lemma set_html_fresh: "p \<notin> set (map fst ps) \<Longrightarrow> set_html p h (ps @ [(p, c)]) = ps @ [(p, h)]"
  by (induction ps) (auto simp: set_html_def)

lemma kind_set_html:
  "\<forall>c. (p, c) \<in> set ps \<longrightarrow> Q c = Q h \<Longrightarrow>
     map fst (filter (\<lambda>(i, c). Q c) (set_html p h ps)) = map fst (filter (\<lambda>(i, c). Q c) ps)"
  by (induction ps) (auto simp: set_html_def split: if_splits)

lemma same_content:
  "distinct (map fst ps) \<Longrightarrow> (p, c) \<in> set ps \<Longrightarrow> (p, c') \<in> set ps \<Longrightarrow> c' = c"
  using eq_key_imp_eq_value by fastforce

lemma other_kind:
  assumes d: "distinct (map fst ps)" and m: "(p, c) \<in> set ps" and n: "\<not> Q c"
  shows "p \<notin> set (map fst (filter (\<lambda>(i, c). Q c) ps))"
proof
  assume "p \<in> set (map fst (filter (\<lambda>(i, c). Q c) ps))"
  then obtain c' where c': "(p, c') \<in> set ps" "Q c'" by auto
  from same_content [OF d m c'(1)] c'(2) n show False by simp
qed

lemma rendered_page:
  "AuditDashboardPanel_getHtmlForWebview r = Inr page \<Longrightarrow> page = AuditDashboardWebview r"
  by (auto simp: AuditDashboardPanel_getHtmlForWebview_def split: jsval.splits option.splits)

lemma tracked_show_hub:
  "tracked_panels w \<Longrightarrow> tracked_panels (AgentHubPanel_createOrShow column w)"
  by (cases "AgentHubPanel_currentPanel w")
     (auto simp: tracked_panels_def AgentHubPanel_createOrShow_def agent_hub_panels_def
        dashboard_pages_def option_list_def Let_def)

lemma tracked_show_audit:
  assumes inv: "tracked_panels w"
  shows "tracked_panels (snd (AuditDashboardPanel_createOrShow column r w))"
proof (cases "AuditDashboardPanel_currentPanel w")
  case None
  from inv have fresh: "next_panel w \<notin> set (map fst (panels w))"
    by (auto simp: tracked_panels_def)
  show ?thesis
  proof (cases "AuditDashboardPanel_getHtmlForWebview r")
    case (Inl e)
    with None inv show ?thesis
      by (auto simp: tracked_panels_def AuditDashboardPanel_createOrShow_def agent_hub_panels_def
            dashboard_pages_def option_list_def Let_def)
  next
    case (Inr page)
    then have page: "page = AuditDashboardWebview r" by (rule rendered_page)
    from None Inr inv show ?thesis
      by (auto simp: tracked_panels_def AuditDashboardPanel_createOrShow_def agent_hub_panels_def
            dashboard_pages_def option_list_def Let_def set_html_fresh [OF fresh] page)
  qed
next
  case (Some p)
  show ?thesis
  proof (cases "AuditDashboardPanel_getHtmlForWebview r")
    case (Inl e)
    with Some inv show ?thesis
      by (simp add: tracked_panels_def AuditDashboardPanel_createOrShow_def agent_hub_panels_def
            dashboard_pages_def)
  next
    case (Inr page)
    then have page: "page = AuditDashboardWebview r" by (rule rendered_page)
    from Some inv have "p \<in> set (dashboard_pages w)"
      by (simp add: tracked_panels_def option_list_def)
    then obtain c where c: "(p, c) \<in> set (panels w)" "c \<noteq> AgentHubWebview"
        "c \<noteq> BlankAuditDashboard"
      by (auto simp: dashboard_pages_def)
    from inv have d: "distinct (map fst (panels w))" by (simp add: tracked_panels_def)
    have hub: "map fst (filter (\<lambda>(i, c). c = AgentHubWebview)
                  (set_html p (AuditDashboardWebview r) (panels w)))
             = map fst (filter (\<lambda>(i, c). c = AgentHubWebview) (panels w))"
      using same_content [OF d c(1)] c(2)
      by (intro kind_set_html [where Q = "\<lambda>c. c = AgentHubWebview"]) auto
    have pages: "map fst (filter (\<lambda>(i, c). c \<noteq> AgentHubWebview \<and> c \<noteq> BlankAuditDashboard)
                  (set_html p (AuditDashboardWebview r) (panels w)))
             = map fst (filter (\<lambda>(i, c). c \<noteq> AgentHubWebview \<and> c \<noteq> BlankAuditDashboard)
                  (panels w))"
      using same_content [OF d c(1)] c(2,3)
      by (intro kind_set_html
            [where Q = "\<lambda>c. c \<noteq> AgentHubWebview \<and> c \<noteq> BlankAuditDashboard"]) auto
    from Some Inr inv show ?thesis
      by (simp add: tracked_panels_def AuditDashboardPanel_createOrShow_def agent_hub_panels_def
            dashboard_pages_def page hub pages map_fst_set_html)
  qed
qed

lemma tracked_close:
  assumes inv: "tracked_panels w"
  shows "tracked_panels (window_step w (ClosePanel p))"
proof (cases "map_of (panels w) p")
  case None
  with inv show ?thesis by simp
next
  case (Some c)
  then have m: "(p, c) \<in> set (panels w)" by (rule map_of_SomeD)
  from inv have d: "distinct (map fst (panels w))"
    and fresh: "\<forall>i \<in> set (map fst (panels w)). i < next_panel w"
    and hub: "agent_hub_panels w = option_list (AgentHubPanel_currentPanel w)"
    and pages: "dashboard_pages w = option_list (AuditDashboardPanel_currentPanel w)"
    by (simp_all add: tracked_panels_def)
  let ?hub = "\<lambda>(i :: nat, c). c = AgentHubWebview"
  let ?page = "\<lambda>(i :: nat, c). c \<noteq> AgentHubWebview \<and> c \<noteq> BlankAuditDashboard"
  let ?rest = "filter (\<lambda>(i, c). i \<noteq> p) (panels w)"
  have d': "distinct (map fst ?rest)"
    using d by (rule distinct_map_filter)
  have fresh': "\<forall>i \<in> set (map fst ?rest). i < next_panel w"
    using fresh by auto
  show ?thesis
  proof (cases c)
    case AgentHubWebview
    with m have "p \<in> set (agent_hub_panels w)" by (force simp: agent_hub_panels_def)
    with hub have cur: "map fst (filter ?hub (panels w)) = [p]"
      by (cases "AgentHubPanel_currentPanel w") (auto simp: option_list_def agent_hub_panels_def)
    have a: "filter ?hub ?rest = []"
      by (rule filter_only [OF cur])
    have "p \<notin> set (map fst (filter ?page (panels w)))"
      using AgentHubWebview
      by (intro other_kind [OF d m,
            where Q = "\<lambda>c. c \<noteq> AgentHubWebview \<and> c \<noteq> BlankAuditDashboard"]) simp
    then have b: "filter ?page ?rest = filter ?page (panels w)"
      by (rule filter_without)
    from AgentHubWebview Some pages d' fresh' show ?thesis
      by (simp add: tracked_panels_def AgentHubPanel_dispose_def agent_hub_panels_def
            dashboard_pages_def a b option_list_def del: filter_filter)
  next
    case (AuditDashboardWebview r)
    with m have "p \<in> set (dashboard_pages w)" by (force simp: dashboard_pages_def)
    with pages have cur: "map fst (filter ?page (panels w)) = [p]"
      by (cases "AuditDashboardPanel_currentPanel w")
         (auto simp: option_list_def dashboard_pages_def)
    have a: "filter ?page ?rest = []"
      by (rule filter_only [OF cur])
    have "p \<notin> set (map fst (filter ?hub (panels w)))"
      using AuditDashboardWebview
      by (intro other_kind [OF d m, where Q = "\<lambda>c. c = AgentHubWebview"]) simp
    then have b: "filter ?hub ?rest = filter ?hub (panels w)"
      by (rule filter_without)
    from AuditDashboardWebview Some hub d' fresh' show ?thesis
      by (simp add: tracked_panels_def AuditDashboardPanel_dispose_def agent_hub_panels_def
            dashboard_pages_def a b option_list_def del: filter_filter)
  next
    case BlankAuditDashboard
    have "p \<notin> set (map fst (filter ?hub (panels w)))"
      using BlankAuditDashboard
      by (intro other_kind [OF d m, where Q = "\<lambda>c. c = AgentHubWebview"]) simp
    then have a: "filter ?hub ?rest = filter ?hub (panels w)"
      by (rule filter_without)
    have "p \<notin> set (map fst (filter ?page (panels w)))"
      using BlankAuditDashboard
      by (intro other_kind [OF d m,
            where Q = "\<lambda>c. c \<noteq> AgentHubWebview \<and> c \<noteq> BlankAuditDashboard"]) simp
    then have b: "filter ?page ?rest = filter ?page (panels w)"
      by (rule filter_without)
    from BlankAuditDashboard Some hub pages d' fresh' show ?thesis
      by (simp add: tracked_panels_def agent_hub_panels_def dashboard_pages_def a b
            del: filter_filter)
  qed
qed

lemma tracked_step: "tracked_panels w \<Longrightarrow> tracked_panels (window_step w ev)"
  by (cases ev)
     (simp_all add: tracked_show_hub tracked_show_audit tracked_close del: window_step.simps(3))

lemma tracked_foldl: "tracked_panels w \<Longrightarrow> tracked_panels (foldl window_step w evs)"
  by (induction evs arbitrary: w) (simp_all add: tracked_step del: window_step.simps)

lemma tracked_run: "tracked_panels (window_run evs)"
  unfolding window_run_def by (rule tracked_foldl [OF tracked_initial])

subsection \<open>Blank panels come from results that cannot be rendered\<close>

lemma blank_set_html:
  "h \<noteq> BlankAuditDashboard \<Longrightarrow>
     set (map fst (filter (\<lambda>(i, c). c = BlankAuditDashboard) (set_html p h ps)))
       \<subseteq> set (map fst (filter (\<lambda>(i, c). c = BlankAuditDashboard) ps))"
  by (induction ps) (auto simp: set_html_def split: if_splits)

lemma blank_set_html_new:
  "h \<noteq> BlankAuditDashboard \<Longrightarrow>
     filter (\<lambda>(i, c). c = BlankAuditDashboard) ps = [] \<Longrightarrow>
     filter (\<lambda>(i, c). c = BlankAuditDashboard) (set_html p h (ps @ [(p, c)])) = []"
  by (induction ps) (auto simp: set_html_def split: if_splits)

lemma blank_set_html_old:
  "h \<noteq> BlankAuditDashboard \<Longrightarrow>
     filter (\<lambda>(i, c). c = BlankAuditDashboard) ps = [] \<Longrightarrow>
     filter (\<lambda>(i, c). c = BlankAuditDashboard) (set_html p h ps) = []"
  by (induction ps) (auto simp: set_html_def split: if_splits)

lemma no_blank_step:
  assumes "blank_panels w = []" and "renders ev"
  shows "blank_panels (window_step w ev) = []"
proof (cases ev)
  case (ShowAgentHub column)
  with assms show ?thesis
    by (cases "AgentHubPanel_currentPanel w")
       (simp_all add: blank_panels_def AgentHubPanel_createOrShow_def Let_def)
next
  case (ShowAuditDashboard column r)
  with assms obtain page where r: "AuditDashboardPanel_getHtmlForWebview r = Inr page"
    by (auto split: sum.splits)
  then have page: "page = AuditDashboardWebview r" by (rule rendered_page)
  from assms(1) have nb: "filter (\<lambda>(i, c). c = BlankAuditDashboard) (panels w) = []"
    by (simp add: blank_panels_def)
  from ShowAuditDashboard r show ?thesis
    by (cases "AuditDashboardPanel_currentPanel w")
       (simp_all add: blank_panels_def AuditDashboardPanel_createOrShow_def Let_def page
          blank_set_html_new [OF _ nb] blank_set_html_old [OF _ nb])
next
  case (ClosePanel p)
  from assms(1) have nb: "filter (\<lambda>(i, c). c = BlankAuditDashboard) (panels w) = []"
    by (simp add: blank_panels_def)
  then have "filter (\<lambda>(i, c). c = BlankAuditDashboard) (filter (\<lambda>(i, c). i \<noteq> p) (panels w)) = []"
    by (auto simp: filter_empty_conv)
  with ClosePanel assms(1) show ?thesis
    by (simp add: blank_panels_def AgentHubPanel_dispose_def AuditDashboardPanel_dispose_def
          split: option.splits webview.splits del: filter_filter)
qed

lemma no_blank_foldl:
  "blank_panels w = [] \<Longrightarrow> \<forall>ev \<in> set evs. renders ev \<Longrightarrow>
     blank_panels (foldl window_step w evs) = []"
  by (induction evs arbitrary: w) (simp_all add: no_blank_step del: window_step.simps)

lemma no_blank_run: "\<forall>ev \<in> set evs. renders ev \<Longrightarrow> blank_panels (window_run evs) = []"
  unfolding window_run_def
  by (rule no_blank_foldl) (simp_all add: blank_panels_def initial_window_def)

lemma pages_without_blank:
  "blank_panels w = [] \<Longrightarrow> audit_dashboard_panels w = dashboard_pages w"
proof -
  assume "blank_panels w = []"
  then have "\<forall>x \<in> set (panels w). snd x \<noteq> BlankAuditDashboard"
    by (auto simp: blank_panels_def filter_empty_conv)
  then have "filter (\<lambda>(i, c). c \<noteq> AgentHubWebview) (panels w)
      = filter (\<lambda>(i, c). c \<noteq> AgentHubWebview \<and> c \<noteq> BlankAuditDashboard) (panels w)"
    by (intro filter_cong [OF refl]) fastforce
  then show ?thesis by (simp add: audit_dashboard_panels_def dashboard_pages_def)
qed

subsection \<open>One panel of each type\<close>

text \<open>
  However the panels are shown and closed, at most one Agent Hub panel is open and at most
  one Audit Dashboard panel shows a page. When \<open>createOrShow\<close> is called while
  \<open>currentPanel\<close> is set, that panel is open and is revealed, and no panel is created: for
  the Agent Hub nothing else changes; for the Audit Dashboard the page of the current panel
  is rendered from the new audit result when the result can be rendered, and left as it was
  when it cannot (the error is then thrown to the caller). As long as every audit result
  shown could be rendered, there is at most one Audit Dashboard panel.
\<close>

lemma panel_discipline:
  "length (agent_hub_panels (window_run evs)) \<le> 1
   \<and> length (dashboard_pages (window_run evs)) \<le> 1
   \<and> (AgentHubPanel_currentPanel (window_run evs) = Some p \<longrightarrow>
        (p, AgentHubWebview) \<in> set (panels (window_run evs))
      \<and> AgentHubPanel_createOrShow column (window_run evs)
          = (window_run evs)\<lparr>host_calls := host_calls (window_run evs) @ [Reveal p column]\<rparr>)
   \<and> (AuditDashboardPanel_currentPanel (window_run evs) = Some q \<longrightarrow>
        q \<in> set (map fst (panels (window_run evs)))
      \<and> map fst (panels (snd (AuditDashboardPanel_createOrShow column r (window_run evs))))
          = map fst (panels (window_run evs))
      \<and> host_calls (snd (AuditDashboardPanel_createOrShow column r (window_run evs)))
          = host_calls (window_run evs) @ [Reveal q column]
      \<and> AuditDashboardPanel_currentPanel
            (snd (AuditDashboardPanel_createOrShow column r (window_run evs))) = Some q
      \<and> (AuditDashboardPanel_getHtmlForWebview r = Inr page \<longrightarrow>
           fst (AuditDashboardPanel_createOrShow column r (window_run evs)) = None
         \<and> map_of (panels (snd (AuditDashboardPanel_createOrShow column r (window_run evs)))) q
             = Some (AuditDashboardWebview r))
      \<and> (AuditDashboardPanel_getHtmlForWebview r = Inl e \<longrightarrow>
           fst (AuditDashboardPanel_createOrShow column r (window_run evs)) = Some e
         \<and> panels (snd (AuditDashboardPanel_createOrShow column r (window_run evs)))
             = panels (window_run evs)))
   \<and> ((\<forall>ev \<in> set evs. renders ev) \<longrightarrow> length (audit_dashboard_panels (window_run evs)) \<le> 1)"
proof -
  let ?w = "window_run evs"
  have inv: "tracked_panels ?w" by (rule tracked_run)
  have one: "length (agent_hub_panels ?w) \<le> 1 \<and> length (dashboard_pages ?w) \<le> 1"
    using inv by (auto simp: tracked_panels_def option_list_def split: option.splits)
  have hub: "AgentHubPanel_currentPanel ?w = Some p \<longrightarrow>
        (p, AgentHubWebview) \<in> set (panels ?w)
      \<and> AgentHubPanel_createOrShow column ?w
          = ?w\<lparr>host_calls := host_calls ?w @ [Reveal p column]\<rparr>"
  proof
    assume cur: "AgentHubPanel_currentPanel ?w = Some p"
    with inv have "p \<in> set (agent_hub_panels ?w)"
      by (simp add: tracked_panels_def option_list_def)
    then have "(p, AgentHubWebview) \<in> set (panels ?w)"
      by (auto simp: agent_hub_panels_def)
    with cur show "(p, AgentHubWebview) \<in> set (panels ?w)
      \<and> AgentHubPanel_createOrShow column ?w
          = ?w\<lparr>host_calls := host_calls ?w @ [Reveal p column]\<rparr>"
      by (simp add: AgentHubPanel_createOrShow_def)
  qed
  have audit: "AuditDashboardPanel_currentPanel ?w = Some q \<longrightarrow>
        q \<in> set (map fst (panels ?w))
      \<and> map fst (panels (snd (AuditDashboardPanel_createOrShow column r ?w)))
          = map fst (panels ?w)
      \<and> host_calls (snd (AuditDashboardPanel_createOrShow column r ?w))
          = host_calls ?w @ [Reveal q column]
      \<and> AuditDashboardPanel_currentPanel (snd (AuditDashboardPanel_createOrShow column r ?w))
          = Some q
      \<and> (AuditDashboardPanel_getHtmlForWebview r = Inr page \<longrightarrow>
           fst (AuditDashboardPanel_createOrShow column r ?w) = None
         \<and> map_of (panels (snd (AuditDashboardPanel_createOrShow column r ?w))) q
             = Some (AuditDashboardWebview r))
      \<and> (AuditDashboardPanel_getHtmlForWebview r = Inl e \<longrightarrow>
           fst (AuditDashboardPanel_createOrShow column r ?w) = Some e
         \<and> panels (snd (AuditDashboardPanel_createOrShow column r ?w)) = panels ?w)"
  proof
    assume cur: "AuditDashboardPanel_currentPanel ?w = Some q"
    with inv have "q \<in> set (dashboard_pages ?w)"
      by (simp add: tracked_panels_def option_list_def)
    then have live: "q \<in> set (map fst (panels ?w))"
      by (auto simp: dashboard_pages_def)
    show "q \<in> set (map fst (panels ?w))
      \<and> map fst (panels (snd (AuditDashboardPanel_createOrShow column r ?w)))
          = map fst (panels ?w)
      \<and> host_calls (snd (AuditDashboardPanel_createOrShow column r ?w))
          = host_calls ?w @ [Reveal q column]
      \<and> AuditDashboardPanel_currentPanel (snd (AuditDashboardPanel_createOrShow column r ?w))
          = Some q
      \<and> (AuditDashboardPanel_getHtmlForWebview r = Inr page \<longrightarrow>
           fst (AuditDashboardPanel_createOrShow column r ?w) = None
         \<and> map_of (panels (snd (AuditDashboardPanel_createOrShow column r ?w))) q
             = Some (AuditDashboardWebview r))
      \<and> (AuditDashboardPanel_getHtmlForWebview r = Inl e \<longrightarrow>
           fst (AuditDashboardPanel_createOrShow column r ?w) = Some e
         \<and> panels (snd (AuditDashboardPanel_createOrShow column r ?w)) = panels ?w)"
    proof (cases "AuditDashboardPanel_getHtmlForWebview r")
      case (Inl e')
      with cur live show ?thesis
        by (simp add: AuditDashboardPanel_createOrShow_def)
    next
      case (Inr page')
      then have "page' = AuditDashboardWebview r" by (rule rendered_page)
      with Inr cur live show ?thesis
        by (simp add: AuditDashboardPanel_createOrShow_def map_fst_set_html map_of_set_html)
    qed
  qed
  have all: "(\<forall>ev \<in> set evs. renders ev) \<longrightarrow> length (audit_dashboard_panels ?w) \<le> 1"
    using one pages_without_blank [OF no_blank_run, of evs] by auto
  from one hub audit all show ?thesis by blast
qed

lemma rendering_examples:
  "AuditDashboardPanel_getHtmlForWebview audit_high = Inr (AuditDashboardWebview audit_high)"
  "AuditDashboardPanel_getHtmlForWebview audit_clean = Inr (AuditDashboardWebview audit_clean)"
  "AuditDashboardPanel_getHtmlForWebview audit_without_severity
     = Inl (TypeError ''Cannot read properties of undefined'')"
  by (simp_all add: AuditDashboardPanel_getHtmlForWebview_def staticAnalysis_def
        severity_toLowerCase_def audit_high_def audit_clean_def audit_without_severity_def)

lemma window_run_example:
  "window_run window_example =
     \<lparr>panels = [(0, AgentHubWebview), (2, AuditDashboardWebview audit_clean)], next_panel = 3,
      AgentHubPanel_currentPanel = Some 0, AuditDashboardPanel_currentPanel = Some 2,
      host_calls = [CreateWebviewPanel 0 ''hivemindAgentHub'' 1,
                    CreateWebviewPanel 1 ''hivemindAuditDashboard'' 1,
                    DisposePanel 1,
                    CreateWebviewPanel 2 ''hivemindAuditDashboard'' 3]\<rparr>"
  by (simp add: window_example_def window_run_def initial_window_def
        AuditDashboardPanel_createOrShow_def AgentHubPanel_createOrShow_def
        AuditDashboardPanel_dispose_def column_or_One_def rendering_examples set_html_def)

lemma panel_discipline_example:
  "(\<forall>ev \<in> set window_example. renders ev)
   \<and> AgentHubPanel_currentPanel (window_run window_example) = Some 0
   \<and> AuditDashboardPanel_currentPanel (window_run window_example) = Some 2
   \<and> audit_dashboard_panels (window_run window_example) = [2]
   \<and> panels (AgentHubPanel_createOrShow (Some 2) (window_run window_example))
       = [(0, AgentHubWebview), (2, AuditDashboardWebview audit_clean)]
   \<and> panels (snd (AuditDashboardPanel_createOrShow (Some 2) audit_high
                     (window_run window_example)))
       = [(0, AgentHubWebview), (2, AuditDashboardWebview audit_high)]"
proof -
  have "\<forall>ev \<in> set window_example. renders ev"
    by (simp add: window_example_def rendering_examples)
  then show ?thesis
    by (simp add: window_run_example rendering_examples audit_dashboard_panels_def
          AgentHubPanel_createOrShow_def AuditDashboardPanel_createOrShow_def set_html_def)
qed

subsection \<open>An audit result that cannot be rendered\<close>

text \<open>
  C9. An audit result with a finding that has no severity cannot be rendered: the page
  builder throws. Shown while no Audit Dashboard panel is open, it leaves the panel that the
  host has just created blank and \<open>currentPanel\<close> unset, so that the next audit result
  shown opens another panel: two Audit Dashboard panels are open at a time. Shown while a
  panel is open, it leaves the page of that panel as it was.
\<close>

theorem unrendered_result_second_panel:
  "AuditDashboardPanel_createOrShow None audit_without_severity initial_window
     = (Some (TypeError ''Cannot read properties of undefined''),
        \<lparr>panels = [(0, BlankAuditDashboard)], next_panel = 1,
         AgentHubPanel_currentPanel = None, AuditDashboardPanel_currentPanel = None,
         host_calls = [CreateWebviewPanel 0 ''hivemindAuditDashboard'' 1]\<rparr>)
   \<and> window_run [ShowAuditDashboard None audit_without_severity,
                  ShowAuditDashboard None audit_clean]
     = \<lparr>panels = [(0, BlankAuditDashboard), (1, AuditDashboardWebview audit_clean)],
        next_panel = 2,
        AgentHubPanel_currentPanel = None, AuditDashboardPanel_currentPanel = Some 1,
        host_calls = [CreateWebviewPanel 0 ''hivemindAuditDashboard'' 1,
                      CreateWebviewPanel 1 ''hivemindAuditDashboard'' 1]\<rparr>
   \<and> audit_dashboard_panels
        (window_run [ShowAuditDashboard None audit_without_severity,
                     ShowAuditDashboard None audit_clean]) = [0, 1]
   \<and> length (audit_dashboard_panels
        (window_run [ShowAuditDashboard None audit_without_severity,
                     ShowAuditDashboard None audit_clean])) = 2
   \<and> AuditDashboardPanel_createOrShow None audit_without_severity
        (window_run [ShowAuditDashboard None audit_high])
     = (Some (TypeError ''Cannot read properties of undefined''),
        \<lparr>panels = [(0, AuditDashboardWebview audit_high)], next_panel = 1,
         AgentHubPanel_currentPanel = None, AuditDashboardPanel_currentPanel = Some 0,
         host_calls = [CreateWebviewPanel 0 ''hivemindAuditDashboard'' 1, Reveal 0 None]\<rparr>)"
  by (simp add: window_run_def initial_window_def AuditDashboardPanel_createOrShow_def
        column_or_One_def rendering_examples set_html_def audit_dashboard_panels_def)


section \<open>Deployment utilities\<close>

subsection \<open>Sequencing and traces\<close>

lemma and_then_Inl [simp]: "and_then (Inl e, t) f = (Inl e, t)"
  by (simp add: and_then_def)

lemma and_then_Inr [simp]: "and_then (Inr v, t) f = (fst (f v), t @ snd (f v))"
  by (simp add: and_then_def split: prod.splits)

lemma and_then_emit [simp]: "and_then (emit evs) f = (fst (f ()), evs @ snd (f ()))"
  by (simp add: emit_def)

lemma and_then_throw [simp]: "and_then (throw e) f = (Inl e, [])"
  by (simp add: throw_def)

lemma and_then_result [simp]: "and_then (result v) f = f v"
  by (simp add: result_def)

lemma and_then_cases:
  "and_then m f =
     (case fst m of Inl e \<Rightarrow> (Inl e, snd m) | Inr v \<Rightarrow> (fst (f v), snd m @ snd (f v)))"
  by (cases m) (simp split: sum.splits)

lemma fst_snd_simps [simp]:
  "fst (throw e) = Inl e" "snd (throw e) = []"
  "fst (result v) = Inr v" "snd (result v) = []"
  "fst (hedera_call c r) = fst r" "snd (hedera_call c r) = [HederaCall c (snd r)]"
  by (simp_all add: throw_def result_def hedera_call_def)

lemma catch_notify_Inl [simp]:
  "catch_notify failure (Inl e, t) =
     (Inl e, t @ [Log (failure @ '':'') e, ShowErrorMessage (failure @ '': '' @ thrown_toString e)])"
  by (simp add: catch_notify_def)

lemma catch_notify_Inr [simp]: "catch_notify failure (Inr v, t) = (Inr v, t)"
  by (simp add: catch_notify_def)

lemma steps_simps [simp]:
  "steps [] = []"
  "steps (x # xs) = step_of x @ steps xs"
  "steps (xs @ ys) = steps xs @ steps ys"
  by (simp_all add: steps_def)

lemma prompt_inputs_trace:
  "steps (snd (prompt_inputs rt what c i ins ps))
     = replicate (length (snd (prompt_inputs rt what c i ins ps))) Prompt
   \<and> length (snd (prompt_inputs rt what c i ins ps)) \<le> length ins
   \<and> (\<forall>v. fst (prompt_inputs rt what c i ins ps) = Inr v \<longrightarrow>
         length (snd (prompt_inputs rt what c i ins ps)) = length ins)
   \<and> (\<forall>e. fst (prompt_inputs rt what c i ins ps) = Inl e \<longrightarrow>
         0 < length (snd (prompt_inputs rt what c i ins ps)))"
proof (induction ins arbitrary: i ps)
  case Nil
  then show ?case by simp
next
  case (Cons input rest)
  show ?case
  proof (cases "showInputBox rt i (input_prompt what input) (input_type input @ '' value'')")
    case None
    then show ?thesis by simp
  next
    case (Some param)
    show ?thesis
    proof (cases "convertParam rt param (input_type input)")
      case (Inl e)
      with Some show ?thesis by simp
    next
      case (Inr v)
      with Some Cons.IH [of "Suc i" "ps @ [v]"] show ?thesis by simp
    qed
  qed
qed





subsection \<open>The deployment pipeline\<close>

lemma run_commands_simps [simp]:
  "run_commands [] p = p"
  "run_commands (x # xs) p = run_commands xs (run_command p x)"
  "run_commands (xs @ ys) p = run_commands ys (run_commands xs p)"
  by (simp_all add: run_commands_def)







text \<open>
  The run in the example workspace. The wrapper of this repository sends the registration
  to the topic \<^verbatim>\<open>0.0.registry\<close>, which is no topic id: with an SDK that refuses to parse it,
  \<open>registerContract\<close> never succeeds.
\<close>

lemma example_file:
  "existsSync (example_runtime a) ''/work/Token.sol''"
  "isSolidityFile (example_runtime a) ''/work/Token.sol''"
  "readFileSync (example_runtime a) ''/work/Token.sol'' = Inr token_source"
  by (simp_all add: example_runtime_def isSolidityFile_def endsWith_def lower_severities
        toLowerCase_def toLowerCase_char_def upper_chars_def lower_chars_def)

lemma example_compiled:
  "compileContract example_api token_source = Inr token_compiled \<and> cr_success token_compiled"
  by (simp add: example_api_def token_compiled_def)

lemma example_prompt:
  "getConstructorParams (answering_runtime) (cr_abi token_compiled)
     = (Inr [JStr ''1000''],
        [ShowInputBox (input_prompt ''constructor parameter''
                         \<lparr>input_name = ''supply'', input_type = ''uint256''\<rparr>)
           ''uint256 value''])"
  by (simp add: getConstructorParams_def token_compiled_def answering_runtime_def
        example_runtime_def convertParam_def startsWith_def emit_def result_def)

lemma example_name: "extractContractName (example_runtime a) ''/work/Token.sol'' = (''Token'', [])"
proof -
  have "match_contract token_source = Some ''Token''"
    unfolding token_source_def by code_simp
  then show ?thesis by (simp add: extractContractName_def example_runtime_def)
qed

lemma example_deploy:
  "api_deployContract example_hedera ''6080'' (JArr [JStr ''1000''])
     = (Inr ''0.0.1001'',
        [SdkExecute (Client Testnet (Some (''0.0.2'', ''key''))) (FileCreateTransaction ''6080''),
         SdkExecute (Client Testnet (Some (''0.0.2'', ''key'')))
           (ContractCreateTransaction ''0.0.1001'' 500000 0 (Some (JArr [JStr ''1000''])))])"
  by (simp add: example_hedera_def HederaService_api_def deployContract_def connected_service_def
        catch_log_def execute_tx_def sdk_accepting_def)


lemma registerContract_placeholder_topic:
  assumes "\<And>c m. \<exists>f. executeTx k c (TopicMessageSubmitTransaction ''0.0.registry'' m) = Inl f"
  shows "\<exists>e t. registerContract k now contractId metadata s = (Inl e, t)"
proof (cases "client s")
  case None
  then show ?thesis by (simp add: registerContract_def)
next
  case (Some c)
  obtain f where "executeTx k c (TopicMessageSubmitTransaction ''0.0.registry''
      (registrationData contractId metadata now (accountId s))) = Inl f"
    using assms by blast
  with Some show ?thesis
    by (simp add: registerContract_def submitMessage_def execute_tx_def catch_log_def)
qed



text \<open>
  With a wrapper whose \<open>registerContract\<close> gets its message through, the run ends with the
  success message and the command; the Transaction Center then has the record in front and
  has notified the tree view once.
\<close>

lemma registered_run_example:
  "fst (DeploymentUtils_deployContract answering_runtime example_api hedera_with_registry
          ''/work/Token.sol'') = Inr ''0.0.1001''
   \<and> steps (snd (DeploymentUtils_deployContract answering_runtime example_api
                   hedera_with_registry ''/work/Token.sol''))
       = [Compile, Prompt, Deploy, Register, Message, Append]
   \<and> run_commands (snd (DeploymentUtils_deployContract answering_runtime example_api
                           hedera_with_registry ''/work/Token.sol''))
         \<lparr>transactions = [], fired = 0\<rparr>
       = \<lparr>transactions = [deploy_transaction 1700000000000 ''0.0.1001'' ''6080''], fired = 1\<rparr>"
proof -
  have bc: "cr_bytecode token_compiled = ''6080''" by (simp add: token_compiled_def)
  have now: "date_now answering_runtime = 1700000000000"
    by (simp add: answering_runtime_def example_runtime_def)
  have dep: "api_deployContract hedera_with_registry ''6080'' (JArr [JStr ''1000''])
      = api_deployContract example_hedera ''6080'' (JArr [JStr ''1000''])"
    by (simp add: hedera_with_registry_def)
  have reg: "api_registerContract hedera_with_registry ''0.0.1001''
      (registrationMetadata ''Token'' token_compiled) = (Inr ''0.0.2@1700000000.000000000'', [])"
    by (simp add: hedera_with_registry_def)
  show ?thesis
    using example_file [of "(\<lambda>i. Some ''1000'')", folded answering_runtime_def]
      example_name [of "(\<lambda>i. Some ''1000'')", folded answering_runtime_def]
    by (simp add: DeploymentUtils_deployContract_def deploy_task_def hedera_call_def
          example_compiled example_prompt bc dep example_deploy reg now
          addTransaction_def TransactionCenterProvider_refresh_def)
qed

subsection \<open>A dismissed input box\<close>

lemma dismissed_prompt_inputs:
  "dismissed rt what i ins \<Longrightarrow> fst (prompt_inputs rt what c i ins ps) = Inl (Error c)"
proof (induction ins arbitrary: i ps)
  case Nil
  then show ?case by simp
next
  case (Cons input rest)
  then show ?case by (auto split: option.splits sum.splits)
qed

lemma dismissed_steps:
  assumes "dismissed rt what i ins"
  shows "\<exists>k. 0 < k \<and> k \<le> length ins
           \<and> steps (snd (prompt_inputs rt what c i ins ps)) = replicate k Prompt"
  using prompt_inputs_trace [of rt what c i ins ps] dismissed_prompt_inputs [OF assms, of c ps]
  by blast

lemma error_text: "thrown_toString (Error (c # cs)) = ''Error: '' @ c # cs"
  by (simp add: error_toString_def)

text \<open>
  C4, as the code has it. When the user dismisses an input box of the deployment or of the
  method call, no remote or blockchain call follows: after the boxes shown so far the
  pipeline only logs the error "Deployment cancelled" (or "Method call cancelled"), shows it
  in an error message and throws it to the caller.
\<close>

theorem dismissed_prompt_aborts:
  "(existsSync rt filePath \<and> isSolidityFile rt filePath \<and> readFileSync rt filePath = Inr code
      \<and> compileContract api code = Inr cr \<and> cr_success cr
      \<and> dismissed rt ''constructor parameter'' 0 (constructor_inputs (cr_abi cr)) \<longrightarrow>
      fst (DeploymentUtils_deployContract rt api h filePath) = Inl (Error ''Deployment cancelled'')
    \<and> (\<exists>k. 0 < k \<and> k \<le> length (constructor_inputs (cr_abi cr))
          \<and> steps (snd (DeploymentUtils_deployContract rt api h filePath))
              = Compile # replicate k Prompt @ [ErrorNotice])
    \<and> (\<exists>before. snd (DeploymentUtils_deployContract rt api h filePath)
          = before @ [Log ''Failed to deploy contract:'' (Error ''Deployment cancelled''),
                      ShowErrorMessage
                        ''Failed to deploy contract: Error: Deployment cancelled'']))
   \<and> (api_getContractInfo h contractId = (Inr (Some info), tg) \<and> ci_abi info = Some abi
      \<and> find (\<lambda>item. item_type item = ''function'' \<and> item_name item = Some methodName) abi
          = Some found
      \<and> dismissed rt ''parameter'' 0 (method_inputs found) \<longrightarrow>
      fst (DeploymentUtils_callContractMethod rt h contractId methodName)
        = Inl (Error ''Method call cancelled'')
    \<and> (\<exists>k. 0 < k \<and> k \<le> length (method_inputs found)
          \<and> steps (snd (DeploymentUtils_callContractMethod rt h contractId methodName))
              = GetInfo # replicate k Prompt @ [ErrorNotice])
    \<and> (\<exists>before. snd (DeploymentUtils_callContractMethod rt h contractId methodName)
          = before @ [Log ''Failed to call contract method:'' (Error ''Method call cancelled''),
                      ShowErrorMessage
                        ''Failed to call contract method: Error: Method call cancelled'']))"
proof (intro conjI impI; elim conjE)
  assume fl: "existsSync rt filePath" "isSolidityFile rt filePath"
      "readFileSync rt filePath = Inr code"
    and comp: "compileContract api code = Inr cr" "cr_success cr"
    and dis: "dismissed rt ''constructor parameter'' 0 (constructor_inputs (cr_abi cr))"
  let ?ins = "constructor_inputs (cr_abi cr)"
  let ?p = "prompt_inputs rt ''constructor parameter'' ''Deployment cancelled'' 0 ?ins []"
  from dis have ne: "?ins \<noteq> []" by auto
  then have g: "getConstructorParams rt (cr_abi cr) = ?p"
    by (auto simp: getConstructorParams_def constructor_inputs_def split: option.splits)
  have f: "fst ?p = Inl (Error ''Deployment cancelled'')"
    by (rule dismissed_prompt_inputs [OF dis])
  obtain k where k: "0 < k" "k \<le> length ?ins" "steps (snd ?p) = replicate k Prompt"
    using dismissed_steps [OF dis] by blast
  have run: "DeploymentUtils_deployContract rt api h filePath =
      (Inl (Error ''Deployment cancelled''),
       [ProgressReport ''Compiling contract...'', ApiCompileContract code,
        ProgressReport ''Preparing deployment...''] @ snd ?p
        @ [Log ''Failed to deploy contract:'' (Error ''Deployment cancelled''),
           ShowErrorMessage ''Failed to deploy contract: Error: Deployment cancelled''])"
    using fl comp f
    by (simp add: DeploymentUtils_deployContract_def deploy_task_def g and_then_cases [of ?p]
          error_toString_def)
  show "fst (DeploymentUtils_deployContract rt api h filePath) = Inl (Error ''Deployment cancelled'')"
    by (simp add: run)
  show "\<exists>k. 0 < k \<and> k \<le> length (constructor_inputs (cr_abi cr))
          \<and> steps (snd (DeploymentUtils_deployContract rt api h filePath))
              = Compile # replicate k Prompt @ [ErrorNotice]"
    using k by (intro exI [of _ k]) (simp add: run)
  show "\<exists>before. snd (DeploymentUtils_deployContract rt api h filePath)
          = before @ [Log ''Failed to deploy contract:'' (Error ''Deployment cancelled''),
                      ShowErrorMessage
                        ''Failed to deploy contract: Error: Deployment cancelled'']"
    by (intro exI [of _ "[ProgressReport ''Compiling contract...'', ApiCompileContract code,
        ProgressReport ''Preparing deployment...''] @ snd ?p"]) (simp add: run)
next
  assume info: "api_getContractInfo h contractId = (Inr (Some info), tg)" "ci_abi info = Some abi"
    and m: "find (\<lambda>item. item_type item = ''function'' \<and> item_name item = Some methodName) abi
          = Some found"
    and dis: "dismissed rt ''parameter'' 0 (method_inputs found)"
  let ?ins = "method_inputs found"
  let ?p = "prompt_inputs rt ''parameter'' ''Method call cancelled'' 0 ?ins []"
  from dis have ne: "?ins \<noteq> []" by auto
  then have g: "getMethodParams rt found = ?p"
    by (auto simp: getMethodParams_def method_inputs_def split: option.splits)
  have f: "fst ?p = Inl (Error ''Method call cancelled'')"
    by (rule dismissed_prompt_inputs [OF dis])
  obtain k where k: "0 < k" "k \<le> length ?ins" "steps (snd ?p) = replicate k Prompt"
    using dismissed_steps [OF dis] by blast
  have run: "DeploymentUtils_callContractMethod rt h contractId methodName =
      (Inl (Error ''Method call cancelled''),
       [HederaCall (GetContractInfo contractId) tg] @ snd ?p
        @ [Log ''Failed to call contract method:'' (Error ''Method call cancelled''),
           ShowErrorMessage ''Failed to call contract method: Error: Method call cancelled''])"
    using info m f
    by (simp add: DeploymentUtils_callContractMethod_def hedera_call_def g and_then_cases [of ?p]
          error_toString_def)
  show "fst (DeploymentUtils_callContractMethod rt h contractId methodName)
        = Inl (Error ''Method call cancelled'')"
    by (simp add: run)
  show "\<exists>k. 0 < k \<and> k \<le> length (method_inputs found)
          \<and> steps (snd (DeploymentUtils_callContractMethod rt h contractId methodName))
              = GetInfo # replicate k Prompt @ [ErrorNotice]"
    using k by (intro exI [of _ k]) (simp add: run)
  show "\<exists>before. snd (DeploymentUtils_callContractMethod rt h contractId methodName)
          = before @ [Log ''Failed to call contract method:'' (Error ''Method call cancelled''),
                      ShowErrorMessage
                        ''Failed to call contract method: Error: Method call cancelled'']"
    by (intro exI [of _ "[HederaCall (GetContractInfo contractId) tg] @ snd ?p"]) (simp add: run)
qed


theorem dismissed_prompt_aborts_witness:
  "dismissed cancelling_runtime ''constructor parameter'' 0 (constructor_inputs (cr_abi token_compiled))
   \<and> fst (DeploymentUtils_deployContract cancelling_runtime example_api example_hedera
            ''/work/Token.sol'') = Inl (Error ''Deployment cancelled'')
   \<and> dismissed dismissing_runtime ''parameter'' 0 (method_inputs transfer_method)
   \<and> fst (DeploymentUtils_callContractMethod dismissing_runtime hedera_with_abi ''0.0.1001''
            ''transfer'') = Inl (Error ''Method call cancelled'')"
proof -
  have d1: "dismissed cancelling_runtime ''constructor parameter'' 0
              (constructor_inputs (cr_abi token_compiled))"
    by (simp add: constructor_inputs_def token_compiled_def cancelling_runtime_def
          example_runtime_def)
  have d2: "dismissed dismissing_runtime ''parameter'' 0 (method_inputs transfer_method)"
    by (simp add: method_inputs_def transfer_method_def dismissing_runtime_def
          example_runtime_def convertParam_def startsWith_def)
  have info: "api_getContractInfo hedera_with_abi ''0.0.1001''
      = (Inr (Some \<lparr>ci_contractId = ''0.0.1001'', ci_name = ''Token'', ci_description = [],
                     ci_owner = Some ''0.0.2'', ci_deployedAt = 0, ci_verified = False,
                     ci_abi = Some [transfer_method]\<rparr>), [])"
    by (simp add: hedera_with_abi_def)
  have m: "find (\<lambda>item. item_type item = ''function'' \<and> item_name item = Some ''transfer'')
             [transfer_method] = Some transfer_method"
    by (simp add: transfer_method_def)
  note fl = example_file [of "(\<lambda>i. None)", folded cancelling_runtime_def]
  from dismissed_prompt_aborts [where rt = cancelling_runtime and filePath = "''/work/Token.sol''"
      and code = token_source and api = example_api and cr = token_compiled
      and h = example_hedera] fl example_compiled d1
  have a: "fst (DeploymentUtils_deployContract cancelling_runtime example_api example_hedera
            ''/work/Token.sol'') = Inl (Error ''Deployment cancelled'')"
    by blast
  from dismissed_prompt_aborts [where rt = dismissing_runtime and h = hedera_with_abi
      and contractId = "''0.0.1001''" and methodName = "''transfer''"
      and abi = "[transfer_method]" and found = transfer_method and tg = "[]"
      and info = "\<lparr>ci_contractId = ''0.0.1001'', ci_name = ''Token'', ci_description = [],
                     ci_owner = Some ''0.0.2'', ci_deployedAt = 0, ci_verified = False,
                     ci_abi = Some [transfer_method]\<rparr>"] info m d2
  have b: "fst (DeploymentUtils_callContractMethod dismissing_runtime hedera_with_abi ''0.0.1001''
            ''transfer'') = Inl (Error ''Method call cancelled'')"
    by simp
  from d1 a d2 b show ?thesis by simp
qed

text \<open>
  The dismissal is not silent: the caller gets the error and the user an error message.
\<close>

theorem dismissal_raises_error_counterexample:
  "DeploymentUtils_deployContract cancelling_runtime example_api example_hedera ''/work/Token.sol''
     = (Inl (Error ''Deployment cancelled''),
        [ProgressReport ''Compiling contract...'', ApiCompileContract token_source,
         ProgressReport ''Preparing deployment...'',
         ShowInputBox (input_prompt ''constructor parameter''
                         \<lparr>input_name = ''supply'', input_type = ''uint256''\<rparr>) ''uint256 value'',
         Log ''Failed to deploy contract:'' (Error ''Deployment cancelled''),
         ShowErrorMessage ''Failed to deploy contract: Error: Deployment cancelled''])"
  using example_file [of "(\<lambda>i. None)", folded cancelling_runtime_def]
  by (simp add: DeploymentUtils_deployContract_def deploy_task_def example_compiled
        getConstructorParams_def token_compiled_def cancelling_runtime_def example_runtime_def
        error_toString_def)


end
